theory Spec2Isabelle
  imports Complex_Main
begin

section \<open>JavaScript values\<close>

text \<open>
  A JavaScript \<^verbatim>\<open>number\<close> is a finite double, one of the two infinities, or NaN.
  Finite doubles are embedded in the reals (\<open>+0\<close> and \<open>-0\<close> coincide, as they do under
  \<^verbatim>\<open>===\<close>); no arithmetic is done on them except where a function below says so.
\<close>

datatype jsnum = Fin real | PInf | NInf | NaN

text \<open>Strict equality \<^verbatim>\<open>===\<close> and inequality \<^verbatim>\<open>!==\<close> on numbers: NaN equals nothing.\<close>

definition num_seq :: "jsnum \<Rightarrow> jsnum \<Rightarrow> bool" where
  "num_seq a b = (if a = NaN \<or> b = NaN then False else a = b)"

definition num_sneq :: "jsnum \<Rightarrow> jsnum \<Rightarrow> bool" where
  "num_sneq a b = (\<not> num_seq a b)"

section \<open>The JavaScript \<^verbatim>\<open>Map\<close>\<close>

text \<open>
  A \<^verbatim>\<open>Map\<close> keeps its entries in insertion order, one per key: \<^verbatim>\<open>set\<close> on a key
  that is present replaces the value in place, on a new key it appends the entry.
\<close>

type_synonym ('k, 'v) jsmap = "('k \<times> 'v) list"

definition jsmap_get :: "('k, 'v) jsmap \<Rightarrow> 'k \<Rightarrow> 'v option" where
  "jsmap_get m k = map_of m k"

fun jsmap_set :: "'k \<Rightarrow> 'v \<Rightarrow> ('k, 'v) jsmap \<Rightarrow> ('k, 'v) jsmap" where
  "jsmap_set k v [] = [(k, v)]"
| "jsmap_set k v (p # ps) = (if fst p = k then (k, v) # ps else p # jsmap_set k v ps)"

definition jsmap_delete :: "'k \<Rightarrow> ('k, 'v) jsmap \<Rightarrow> ('k, 'v) jsmap" where
  "jsmap_delete k m = filter (\<lambda>p. fst p \<noteq> k) m"

section \<open>The map context (MapProvider)\<close>

text \<open>
  The entity types of \<^verbatim>\<open>types/map\<close>. Field names carry a prefix where the source's
  name (\<^verbatim>\<open>id\<close>, \<^verbatim>\<open>x\<close>, \<^verbatim>\<open>y\<close>, \<^verbatim>\<open>status\<close>) is shared by several interfaces.
  An optional field is an \<open>option\<close>; \<open>None\<close> is \<^verbatim>\<open>undefined\<close>.
\<close>

record Coordinates =
  coord_x :: jsnum
  coord_y :: jsnum
  coord_yaw :: "jsnum option"

record Robot =
  robot_id :: string
  robot_x :: jsnum
  robot_y :: jsnum
  robot_status :: "string option"
  battery :: "jsnum option"
  timestamp :: "jsnum option"

record ShelfMap =
  shelf_id :: string
  warehouse_id :: string
  storage :: Coordinates
  current :: Coordinates
  location_status :: string
  available :: bool
  shelf_status :: string

record TaskShelf =
  ts_id :: string
  ts_storage :: Coordinates
  ts_current :: Coordinates

record DropZone =
  dz_id :: string
  dz_x :: jsnum
  dz_y :: jsnum

record TaskMapView =
  task_id :: string
  task_status :: string
  task_type :: string
  task_robot :: Robot
  task_shelf :: TaskShelf
  drop_zone :: "DropZone option"
  priority :: "jsnum option"
  created_at :: "string option"
  updated_at :: "string option"

text \<open>The three pieces of React state held by the provider.\<close>

record MapContext =
  tasks :: "(string, TaskMapView) jsmap"
  shelves :: "(string, ShelfMap) jsmap"
  robots :: "(string, Robot) jsmap"

text \<open>
  Every operation hands an updater \<^verbatim>\<open>prev => next\<close> to a state setter; the model
  applies the updater to the state.
\<close>

definition setTask :: "TaskMapView \<Rightarrow> MapContext \<Rightarrow> MapContext" where
  "setTask task st = st\<lparr>tasks := jsmap_set (task_id task) task (tasks st)\<rparr>"

definition removeTask :: "string \<Rightarrow> MapContext \<Rightarrow> MapContext" where
  "removeTask taskId st = st\<lparr>tasks := jsmap_delete taskId (tasks st)\<rparr>"

definition updateTaskStatus :: "string \<Rightarrow> string \<Rightarrow> MapContext \<Rightarrow> MapContext" where
  "updateTaskStatus taskId status st =
     (case jsmap_get (tasks st) taskId of
        None \<Rightarrow> st
      | Some task \<Rightarrow> st\<lparr>tasks := jsmap_set taskId (task\<lparr>task_status := status\<rparr>) (tasks st)\<rparr>)"

definition setShelf :: "ShelfMap \<Rightarrow> MapContext \<Rightarrow> MapContext" where
  "setShelf shelf st = st\<lparr>shelves := jsmap_set (shelf_id shelf) shelf (shelves st)\<rparr>"

definition removeShelf :: "string \<Rightarrow> MapContext \<Rightarrow> MapContext" where
  "removeShelf shelfId st = st\<lparr>shelves := jsmap_delete shelfId (shelves st)\<rparr>"

text \<open>
  \<^verbatim>\<open>setShelfCurrent(shelfId, x, y, locationStatus)\<close>: the new \<^verbatim>\<open>current\<close> keeps the
  old yaw, every other field of the shelf is copied by the spread.
\<close>

definition setShelfCurrent :: "string \<Rightarrow> jsnum \<Rightarrow> jsnum \<Rightarrow> string \<Rightarrow> MapContext \<Rightarrow> MapContext" where
  "setShelfCurrent shelfId x y locationStatus st =
     (case jsmap_get (shelves st) shelfId of
        None \<Rightarrow> st
      | Some shelf \<Rightarrow>
          st\<lparr>shelves :=
            jsmap_set shelfId
              (shelf\<lparr>current := \<lparr>coord_x = x, coord_y = y, coord_yaw = coord_yaw (current shelf)\<rparr>,
                     location_status := locationStatus\<rparr>)
              (shelves st)\<rparr>)"

definition markShelfFixed :: "string \<Rightarrow> MapContext \<Rightarrow> MapContext" where
  "markShelfFixed shelfId st =
     (case jsmap_get (shelves st) shelfId of
        None \<Rightarrow> st
      | Some shelf \<Rightarrow> st\<lparr>shelves := jsmap_set shelfId (shelf\<lparr>shelf_status := ''IDLE''\<rparr>) (shelves st)\<rparr>)"

definition setRobot :: "Robot \<Rightarrow> MapContext \<Rightarrow> MapContext" where
  "setRobot robot st = st\<lparr>robots := jsmap_set (robot_id robot) robot (robots st)\<rparr>"

definition removeRobot :: "string \<Rightarrow> MapContext \<Rightarrow> MapContext" where
  "removeRobot robotId st = st\<lparr>robots := jsmap_delete robotId (robots st)\<rparr>"

definition setRobotPosition :: "string \<Rightarrow> jsnum \<Rightarrow> jsnum \<Rightarrow> MapContext \<Rightarrow> MapContext" where
  "setRobotPosition robotId x y st =
     (case jsmap_get (robots st) robotId of
        None \<Rightarrow> st
      | Some robot \<Rightarrow> st\<lparr>robots := jsmap_set robotId (robot\<lparr>robot_x := x, robot_y := y\<rparr>) (robots st)\<rparr>)"

text \<open>
  The bulk operations build a fresh \<^verbatim>\<open>Map\<close> with \<^verbatim>\<open>forEach\<close> over the array and
  install it; the previous collection is not read.
\<close>

definition setTasks :: "TaskMapView list \<Rightarrow> MapContext \<Rightarrow> MapContext" where
  "setTasks newTasks st = st\<lparr>tasks := fold (\<lambda>task m. jsmap_set (task_id task) task m) newTasks []\<rparr>"

definition setShelves :: "ShelfMap list \<Rightarrow> MapContext \<Rightarrow> MapContext" where
  "setShelves newShelves st =
     st\<lparr>shelves := fold (\<lambda>shelf m. jsmap_set (shelf_id shelf) shelf m) newShelves []\<rparr>"

definition setRobots :: "Robot list \<Rightarrow> MapContext \<Rightarrow> MapContext" where
  "setRobots newRobots st =
     st\<lparr>robots := fold (\<lambda>robot m. jsmap_set (robot_id robot) robot m) newRobots []\<rparr>"

definition clear :: "MapContext \<Rightarrow> MapContext" where
  "clear st = st\<lparr>tasks := [], shelves := [], robots := []\<rparr>"

section \<open>Untyped payloads and records\<close>

text \<open>
  The pages keep their rows as plain objects and receive push payloads typed \<^verbatim>\<open>any\<close>.
  A payload is an object whose properties hold primitive values (a JSON object without
  nesting); a property that is absent reads as \<^verbatim>\<open>undefined\<close>.
\<close>

datatype jsval = JUndefined | JNull | JBool bool | JNum jsnum | JStr string

type_synonym jsobj = "string \<Rightarrow> jsval option"

definition getprop :: "jsobj \<Rightarrow> string \<Rightarrow> jsval" where
  "getprop ob k = (case ob k of None \<Rightarrow> JUndefined | Some v \<Rightarrow> v)"

text \<open>The object spread \<^verbatim>\<open>{ ...a, ...b }\<close>: every own property of \<open>b\<close> overrides \<open>a\<close>'s.\<close>

definition spread :: "jsobj \<Rightarrow> jsobj \<Rightarrow> jsobj" where
  "spread a b = a ++ b"

fun js_seq :: "jsval \<Rightarrow> jsval \<Rightarrow> bool" where
  "js_seq (JNum a) (JNum b) = num_seq a b"
| "js_seq a b = (a = b)"

definition js_sneq :: "jsval \<Rightarrow> jsval \<Rightarrow> bool" where
  "js_sneq a b = (\<not> js_seq a b)"

fun truthy :: "jsval \<Rightarrow> bool" where
  "truthy JUndefined = False"
| "truthy JNull = False"
| "truthy (JBool b) = b"
| "truthy (JNum n) = (n \<noteq> NaN \<and> n \<noteq> Fin 0)"
| "truthy (JStr s) = (s \<noteq> [])"

text \<open>\<^verbatim>\<open>a || b\<close> and \<^verbatim>\<open>a ?? b\<close> on values.\<close>

definition js_or :: "jsval \<Rightarrow> jsval \<Rightarrow> jsval" where
  "js_or a b = (if truthy a then a else b)"

definition js_nullish :: "jsval \<Rightarrow> jsval \<Rightarrow> jsval" where
  "js_nullish a b = (if a = JUndefined \<or> a = JNull then b else a)"

text \<open>
  \<^verbatim>\<open>Number(v)\<close>. The reading of a string as a number (the language's StringToNumber) is a
  parameter \<open>s2n\<close> of the model; the other cases are the language's fixed conversions.
  \<^verbatim>\<open>String(v)\<close> takes the printing of a number as the parameter \<open>n2s\<close>.
\<close>

fun js_Number :: "(string \<Rightarrow> jsnum) \<Rightarrow> jsval \<Rightarrow> jsnum" where
  "js_Number s2n JUndefined = NaN"
| "js_Number s2n JNull = Fin 0"
| "js_Number s2n (JBool b) = (if b then Fin 1 else Fin 0)"
| "js_Number s2n (JNum n) = n"
| "js_Number s2n (JStr s) = s2n s"

fun js_String :: "(jsnum \<Rightarrow> string) \<Rightarrow> jsval \<Rightarrow> string" where
  "js_String n2s JUndefined = ''undefined''"
| "js_String n2s JNull = ''null''"
| "js_String n2s (JBool b) = (if b then ''true'' else ''false'')"
| "js_String n2s (JNum n) = n2s n"
| "js_String n2s (JStr s) = s"

section \<open>The Shelves page: push handlers\<close>

text \<open>
  The page state touched by the socket handlers: the list of shelves and the shelf shown in
  the detail modal. A shelf row has the flat fields of the \<^verbatim>\<open>Shelf\<close> interface
  (\<^verbatim>\<open>current_x\<close>, \<^verbatim>\<open>storage_x\<close>, ...).
\<close>

record ShelvesPage =
  shelfList :: "jsobj list"
  selectedShelf :: "jsobj option"

text \<open>\<^verbatim>\<open>shelf_update\<close>: the row with the payload's id becomes \<^verbatim>\<open>{ ...s, ...data }\<close>.\<close>

definition on_shelf_update :: "jsobj \<Rightarrow> ShelvesPage \<Rightarrow> ShelvesPage" where
  "on_shelf_update data pg =
     pg\<lparr>shelfList :=
       map (\<lambda>s. if js_seq (getprop s ''id'') (getprop data ''id'') then spread s data else s) (shelfList pg)\<rparr>"

text \<open>\<^verbatim>\<open>shelf_location_update\<close>: only the three \<^verbatim>\<open>current_*\<close> fields are copied.\<close>

definition copy_current :: "jsobj \<Rightarrow> jsobj \<Rightarrow> jsobj" where
  "copy_current data s =
     s(''current_x'' \<mapsto> getprop data ''current_x'',
       ''current_y'' \<mapsto> getprop data ''current_y'',
       ''current_yaw'' \<mapsto> getprop data ''current_yaw'')"

definition on_shelf_location_update :: "jsobj \<Rightarrow> ShelvesPage \<Rightarrow> ShelvesPage" where
  "on_shelf_location_update data pg =
     (let pg1 = pg\<lparr>shelfList :=
            map (\<lambda>s. if js_seq (getprop s ''id'') (getprop data ''id'') then copy_current data s else s)
              (shelfList pg)\<rparr>;
          selectedId = (case selectedShelf pg of None \<Rightarrow> JUndefined | Some sel \<Rightarrow> getprop sel ''id'')
      in if js_seq selectedId (getprop data ''id'')
         then pg1\<lparr>selectedShelf := map_option (copy_current data) (selectedShelf pg1)\<rparr>
         else pg1)"

definition on_shelf_deleted :: "jsobj \<Rightarrow> ShelvesPage \<Rightarrow> ShelvesPage" where
  "on_shelf_deleted data pg =
     pg\<lparr>shelfList := filter (\<lambda>s. js_sneq (getprop s ''id'') (getprop data ''id'')) (shelfList pg)\<rparr>"

text \<open>The storage position of a row, as the three values stored under \<^verbatim>\<open>storage_*\<close>.\<close>

definition storage_of :: "jsobj \<Rightarrow> jsval \<times> jsval \<times> jsval" where
  "storage_of s = (getprop s ''storage_x'', getprop s ''storage_y'', getprop s ''storage_yaw'')"

text \<open>The push events of the page, and a run of them in arrival order.\<close>

datatype shelf_event = ShelfUpdate jsobj | ShelfLocationUpdate jsobj

fun apply_shelf_event :: "shelf_event \<Rightarrow> ShelvesPage \<Rightarrow> ShelvesPage" where
  "apply_shelf_event (ShelfUpdate data) pg = on_shelf_update data pg"
| "apply_shelf_event (ShelfLocationUpdate data) pg = on_shelf_location_update data pg"

definition apply_shelf_events :: "shelf_event list \<Rightarrow> ShelvesPage \<Rightarrow> ShelvesPage" where
  "apply_shelf_events evs pg = fold apply_shelf_event evs pg"

text \<open>
  Whether a push event brings a storage position into the row: a \<^verbatim>\<open>shelf_update\<close> whose
  payload has one of the three \<^verbatim>\<open>storage_*\<close> properties. (The other handler reads the
  \<^verbatim>\<open>current_*\<close> properties only.)
\<close>

fun carries_storage :: "shelf_event \<Rightarrow> bool" where
  "carries_storage (ShelfUpdate data) =
     (data ''storage_x'' \<noteq> None \<or> data ''storage_y'' \<noteq> None \<or> data ''storage_yaw'' \<noteq> None)"
| "carries_storage (ShelfLocationUpdate data) = False"

text \<open>A run of \<^verbatim>\<open>setShelfCurrent\<close> calls on the map context.\<close>

definition apply_setShelfCurrent_calls ::
  "(string \<times> jsnum \<times> jsnum \<times> string) list \<Rightarrow> MapContext \<Rightarrow> MapContext" where
  "apply_setShelfCurrent_calls calls st =
     fold (\<lambda>(shelfId, x, y, ls) st'. setShelfCurrent shelfId x y ls st') calls st"

section \<open>Numeric coercion of inbound data\<close>

subsection \<open>The Robots page: telemetry handler\<close>

text \<open>
  The handler's ternaries, named: \<^verbatim>\<open>data.k !== undefined ? Number(data.k) :
  (data.alias !== undefined ? Number(data.alias) : old)\<close> and its one-key form.
\<close>

definition num_or_alias :: "(string \<Rightarrow> jsnum) \<Rightarrow> jsobj \<Rightarrow> string \<Rightarrow> string \<Rightarrow> jsval \<Rightarrow> jsval" where
  "num_or_alias s2n data k alias old =
     (if js_sneq (getprop data k) JUndefined then JNum (js_Number s2n (getprop data k))
      else if js_sneq (getprop data alias) JUndefined then JNum (js_Number s2n (getprop data alias))
      else old)"

definition num_or_keep :: "(string \<Rightarrow> jsnum) \<Rightarrow> jsobj \<Rightarrow> string \<Rightarrow> jsval \<Rightarrow> jsval" where
  "num_or_keep s2n data k old =
     (if js_sneq (getprop data k) JUndefined then JNum (js_Number s2n (getprop data k)) else old)"

definition robots_isMatch :: "jsobj \<Rightarrow> jsobj \<Rightarrow> bool" where
  "robots_isMatch r data =
     (js_seq (getprop r ''robot_id'') (getprop data ''robot_id'')
      \<or> js_seq (getprop r ''robot_id'') (getprop data ''robot'')
      \<or> js_seq (getprop r ''name'') (getprop data ''name'')
      \<or> js_seq (getprop r ''id'') (getprop data ''id'')
      \<or> js_seq (getprop r ''robot_id'') (getprop data ''id''))"

definition robots_telemetry_row :: "(string \<Rightarrow> jsnum) \<Rightarrow> jsobj \<Rightarrow> jsobj \<Rightarrow> jsobj" where
  "robots_telemetry_row s2n data r =
     r(''x'' \<mapsto> num_or_alias s2n data ''x'' ''current_x'' (getprop r ''x''),
       ''y'' \<mapsto> num_or_alias s2n data ''y'' ''current_y'' (getprop r ''y''),
       ''yaw'' \<mapsto> num_or_alias s2n data ''yaw'' ''current_yaw'' (getprop r ''yaw''),
       ''current_x'' \<mapsto> num_or_alias s2n data ''x'' ''current_x'' (getprop r ''current_x''),
       ''current_y'' \<mapsto> num_or_alias s2n data ''y'' ''current_y'' (getprop r ''current_y''),
       ''current_yaw'' \<mapsto> num_or_alias s2n data ''yaw'' ''current_yaw'' (getprop r ''current_yaw''),
       ''cpu_usage'' \<mapsto> num_or_keep s2n data ''cpu_usage'' (getprop r ''cpu_usage''),
       ''ram_usage'' \<mapsto> num_or_keep s2n data ''ram_usage'' (getprop r ''ram_usage''),
       ''battery_level'' \<mapsto> num_or_keep s2n data ''battery_level'' (getprop r ''battery_level''),
       ''temperature'' \<mapsto> num_or_keep s2n data ''temperature'' (getprop r ''temperature''),
       ''status'' \<mapsto> (if js_sneq (getprop data ''status'') JUndefined then getprop data ''status''
                      else getprop r ''status''))"

definition Robots_onTelemetry :: "(string \<Rightarrow> jsnum) \<Rightarrow> jsobj \<Rightarrow> jsobj list \<Rightarrow> jsobj list" where
  "Robots_onTelemetry s2n data prev =
     map (\<lambda>r. if robots_isMatch r data then robots_telemetry_row s2n data r else r) prev"

subsection \<open>The warehouse map: telemetry handler\<close>

text \<open>
  The map page holds \<^verbatim>\<open>mapData\<close>, which is \<^verbatim>\<open>null\<close> until loaded; its \<^verbatim>\<open>robots\<close>
  array may be missing.
\<close>

record MapData =
  md_robots :: "jsobj list option"

definition map_robot_matches :: "jsval \<Rightarrow> jsobj \<Rightarrow> bool" where
  "map_robot_matches robotId r = (js_seq (getprop r ''id'') robotId \<or> js_seq (getprop r ''robot_id'') robotId)"

definition map_telemetry_row :: "(string \<Rightarrow> jsnum) \<Rightarrow> jsobj \<Rightarrow> jsval \<Rightarrow> jsval \<Rightarrow> jsval \<Rightarrow> jsobj \<Rightarrow> jsobj" where
  "map_telemetry_row s2n data x y yaw r =
     r(''x'' \<mapsto> JNum (js_Number s2n x),
       ''y'' \<mapsto> JNum (js_Number s2n y),
       ''yaw'' \<mapsto> JNum (js_Number s2n yaw),
       ''current_x'' \<mapsto> JNum (js_Number s2n x),
       ''current_y'' \<mapsto> JNum (js_Number s2n y),
       ''current_yaw'' \<mapsto> JNum (js_Number s2n yaw),
       ''status'' \<mapsto> js_nullish (getprop data ''status'') (getprop r ''status''),
       ''cpu_usage'' \<mapsto> num_or_keep s2n data ''cpu_usage'' (getprop r ''cpu_usage''),
       ''ram_usage'' \<mapsto> num_or_keep s2n data ''ram_usage'' (getprop r ''ram_usage''),
       ''battery_level'' \<mapsto> num_or_keep s2n data ''battery_level'' (getprop r ''battery_level''),
       ''temperature'' \<mapsto> num_or_keep s2n data ''temperature'' (getprop r ''temperature''))"

definition WarehouseMap_onTelemetry ::
  "(string \<Rightarrow> jsnum) \<Rightarrow> jsobj \<Rightarrow> 'a MapData_scheme option \<Rightarrow> 'a MapData_scheme option" where
  "WarehouseMap_onTelemetry s2n data prev =
     (let robotId = js_or (js_or (getprop data ''robot_id'') (getprop data ''robot'')) (getprop data ''id'');
          x = (if js_sneq (getprop data ''x'') JUndefined then getprop data ''x'' else getprop data ''current_x'');
          y = (if js_sneq (getprop data ''y'') JUndefined then getprop data ''y'' else getprop data ''current_y'');
          yaw = (if js_sneq (getprop data ''yaw'') JUndefined then getprop data ''yaw''
                 else js_nullish (getprop data ''current_yaw'') (JNum (Fin 0)))
      in if truthy robotId \<and> js_sneq x JUndefined \<and> js_sneq y JUndefined
         then (case prev of
                 None \<Rightarrow> prev
               | Some md \<Rightarrow>
                   (case md_robots md of
                      None \<Rightarrow> prev
                    | Some rs \<Rightarrow>
                        (case find (map_robot_matches robotId) rs of
                           None \<Rightarrow> prev
                         | Some found \<Rightarrow>
                             Some (md\<lparr>md_robots :=
                               Some (map (\<lambda>r. if map_robot_matches robotId r
                                               then map_telemetry_row s2n data x y yaw r else r) rs)\<rparr>))))
         else prev)"

subsection \<open>The REST client: \<^verbatim>\<open>sanitizeDoc\<close>\<close>

text \<open>
  A response document is an object or something else (\<^verbatim>\<open>null\<close>, a string, ...); anything
  but an object is returned as it is.
\<close>

datatype jsdoc = Prim jsval | Obj jsobj

definition numericKeys :: "string list" where
  "numericKeys = [''x'', ''y'', ''yaw'', ''current_x'', ''current_y'', ''current_yaw'',
                  ''target_x'', ''target_y'', ''priority'', ''storage_x'', ''storage_y'', ''storage_yaw'']"

definition rename_id :: "(jsnum \<Rightarrow> string) \<Rightarrow> jsobj \<Rightarrow> jsobj" where
  "rename_id n2s out =
     (if truthy (getprop out ''_id'')
      then (out(''id'' \<mapsto> JStr (js_String n2s (getprop out ''_id''))))(''_id'' := None)
      else out)"

definition sanitize_key :: "(string \<Rightarrow> jsnum) \<Rightarrow> string \<Rightarrow> jsobj \<Rightarrow> jsobj" where
  "sanitize_key s2n k out =
     (if js_sneq (getprop out k) JUndefined \<and> js_sneq (getprop out k) JNull
      then (let n = js_Number s2n (getprop out k) in if n \<noteq> NaN then out(k \<mapsto> JNum n) else out)
      else out)"

fun sanitizeDoc :: "(string \<Rightarrow> jsnum) \<Rightarrow> (jsnum \<Rightarrow> string) \<Rightarrow> jsdoc \<Rightarrow> jsdoc" where
  "sanitizeDoc s2n n2s (Prim v) = Prim v"
| "sanitizeDoc s2n n2s (Obj doc) = Obj (fold (sanitize_key s2n) numericKeys (rename_id n2s doc))"

section \<open>The callback registry of the socket service\<close>

text \<open>
  A callback runs on the application state and either returns or throws, leaving a state
  behind in both cases. The registry maps an event name to the callbacks registered for
  it, in insertion order; callbacks act on the application state, not on the registry.
\<close>

datatype ('e, 'w) outcome = Normal 'w | Thrown 'e 'w

type_synonym ('d, 'e, 's) callback = "'d \<Rightarrow> 's \<Rightarrow> ('e, 's) outcome"

type_synonym ('d, 'e, 's) registry = "string \<Rightarrow> ('d, 'e, 's) callback list option"

fun state_of :: "('e, 'w) outcome \<Rightarrow> 'w" where
  "state_of (Normal w) = w"
| "state_of (Thrown e w) = w"

fun threw :: "('e, 'w) outcome \<Rightarrow> bool" where
  "threw (Normal w) = False"
| "threw (Thrown e w) = True"

text \<open>
  The world seen by the dispatcher: the application state and the lines written with
  \<^verbatim>\<open>console.error\<close> (message and the caught value).
\<close>

record ('e, 's) dispatch_world =
  app :: 's
  console :: "(string \<times> 'e) list"

text \<open>
  \<^verbatim>\<open>forEach\<close> runs its body on the elements in order and stops at the first one that
  throws; \<^verbatim>\<open>try { body } catch (e) { handler }\<close> hands a thrown value to the handler.
\<close>

fun forEach :: "('a \<Rightarrow> 'w \<Rightarrow> ('e, 'w) outcome) \<Rightarrow> 'a list \<Rightarrow> 'w \<Rightarrow> ('e, 'w) outcome" where
  "forEach body [] w = Normal w"
| "forEach body (a # as) w =
     (case body a w of Normal w' \<Rightarrow> forEach body as w' | Thrown e w' \<Rightarrow> Thrown e w')"

definition try_catch ::
  "('w \<Rightarrow> ('e, 'w) outcome) \<Rightarrow> ('e \<Rightarrow> 'w \<Rightarrow> ('e, 'w) outcome) \<Rightarrow> 'w \<Rightarrow> ('e, 'w) outcome" where
  "try_catch body handler w =
     (case body w of Normal w' \<Rightarrow> Normal w' | Thrown e w' \<Rightarrow> handler e w')"

definition call_callback ::
  "('d, 'e, 's) callback \<Rightarrow> 'd \<Rightarrow> ('e, 's) dispatch_world \<Rightarrow> ('e, ('e, 's) dispatch_world) outcome" where
  "call_callback cb data w =
     (case cb data (app w) of
        Normal s \<Rightarrow> Normal (w\<lparr>app := s\<rparr>)
      | Thrown e s \<Rightarrow> Thrown e (w\<lparr>app := s\<rparr>))"

definition console_error ::
  "string \<Rightarrow> 'e \<Rightarrow> ('e, 's) dispatch_world \<Rightarrow> ('e, ('e, 's) dispatch_world) outcome" where
  "console_error msg e w = Normal (w\<lparr>console := console w @ [(msg, e)]\<rparr>)"

definition invokeCallbacks ::
  "('d, 'e, 's) registry \<Rightarrow> string \<Rightarrow> 'd \<Rightarrow> ('e, 's) dispatch_world
     \<Rightarrow> ('e, ('e, 's) dispatch_world) outcome" where
  "invokeCallbacks callbackRegistry eventName data w =
     (case callbackRegistry eventName of
        None \<Rightarrow> Normal w
      | Some cbs \<Rightarrow>
          forEach
            (\<lambda>cb. try_catch (call_callback cb data)
                     (console_error (''Error invoking callback for '' @ eventName @ '':'')))
            cbs w)"

text \<open>The same loop without the \<^verbatim>\<open>try\<close>, for comparison: a throwing callback ends it.\<close>

definition invoke_unguarded ::
  "('d, 'e, 's) registry \<Rightarrow> string \<Rightarrow> 'd \<Rightarrow> ('e, 's) dispatch_world
     \<Rightarrow> ('e, ('e, 's) dispatch_world) outcome" where
  "invoke_unguarded callbackRegistry eventName data w =
     (case callbackRegistry eventName of
        None \<Rightarrow> Normal w
      | Some cbs \<Rightarrow> forEach (\<lambda>cb. call_callback cb data) cbs w)"

text \<open>The values thrown by the callbacks of a list, run in order from a state.\<close>

fun thrown_values :: "('d, 'e, 's) callback list \<Rightarrow> 'd \<Rightarrow> 's \<Rightarrow> 'e list" where
  "thrown_values [] data s = []"
| "thrown_values (cb # cbs) data s =
     (case cb data s of
        Normal s' \<Rightarrow> thrown_values cbs data s'
      | Thrown e s' \<Rightarrow> e # thrown_values cbs data s')"

section \<open>The shelf details panel\<close>

text \<open>
  \<^verbatim>\<open>isDifferent\<close> compares the x and y of the current and the storage position with
  \<^verbatim>\<open>!==\<close>.
\<close>

definition isDifferent :: "'a ShelfMap_scheme \<Rightarrow> bool" where
  "isDifferent shelf =
     (num_sneq (coord_x (current shelf)) (coord_x (storage shelf))
      \<or> num_sneq (coord_y (current shelf)) (coord_y (storage shelf)))"

record StorageCoords =
  storage_x :: jsnum
  storage_y :: jsnum
  storage_yaw :: jsnum

record Panel =
  isRestoring :: bool
  showStorageForm :: bool
  storageCoords :: StorageCoords
  panel_error :: "string option"
  panel_success :: "string option"

text \<open>The buttons the panel renders: the storage form's two, or the action row.\<close>

datatype button = ConfirmUpdate | Cancel | Restore | Admin

definition rendered_buttons :: "Panel \<Rightarrow> ShelfMap \<Rightarrow> button list" where
  "rendered_buttons p shelf =
     (if showStorageForm p then [ConfirmUpdate, Cancel] else [])
     @ (if \<not> showStorageForm p then (if isDifferent shelf then [Restore] else []) @ [Admin] else [])"

text \<open>
  \<^verbatim>\<open>mapApi.setShelfStorage\<close>: the outcome of \<^verbatim>\<open>fetch\<close> is a network failure or a response
  with its status, status text and parsed body; \<^verbatim>\<open>res.ok\<close> is a status from 200 to 299.
  The call returns the body or throws an error with a message.
\<close>

datatype 'a fetch_result = NetworkError string | Response nat string 'a

definition mapApi_setShelfStorage :: "ShelfMap fetch_result \<Rightarrow> string + ShelfMap" where
  "mapApi_setShelfStorage res =
     (case res of
        NetworkError msg \<Rightarrow> Inl msg
      | Response status statusText body \<Rightarrow>
          if status = 403 then Inl ''Forbidden: Admin privileges required''
          else if \<not> (200 \<le> status \<and> status \<le> 299) then Inl (''Failed to set shelf storage: '' @ statusText)
          else Inr body)"

text \<open>
  The panel with the map context it writes and the storage requests it has sent. The
  backend is a parameter: what it answers to a storage request for a shelf.
\<close>

record PanelWorld =
  panel :: Panel
  ctx :: MapContext
  requests :: "(string \<times> StorageCoords) list"

definition handleSetStorage ::
  "(string \<Rightarrow> StorageCoords \<Rightarrow> ShelfMap fetch_result) \<Rightarrow> bool \<Rightarrow> ShelfMap \<Rightarrow> PanelWorld \<Rightarrow> PanelWorld" where
  "handleSetStorage backend confirmed shelf w =
     (let w1 = w\<lparr>panel := (panel w)\<lparr>panel_error := None, panel_success := None\<rparr>\<rparr>
      in if \<not> confirmed then w1
         else
           (let coords = storageCoords (panel w1);
                w2 = w1\<lparr>requests := requests w1 @ [(shelf_id shelf, coords)]\<rparr>
            in case mapApi_setShelfStorage (backend (shelf_id shelf) coords) of
                 Inr updated \<Rightarrow>
                   w2\<lparr>ctx := setShelf updated (ctx w2),
                      panel := (panel w2)\<lparr>showStorageForm := False,
                                          panel_success := Some ''Shelf storage location updated''\<rparr>\<rparr>
               | Inl message \<Rightarrow>
                   w2\<lparr>panel := (panel w2)\<lparr>panel_error :=
                         Some (if message = [] then ''Failed to set storage location'' else message)\<rparr>\<rparr>))"

text \<open>
  The reading of the specification's \<open>isAtStorage\<close>: current and storage agree within
  \<open>eps\<close> in both coordinates. It is compared with \<open>isDifferent\<close> below.
\<close>

fun num_within :: "real \<Rightarrow> jsnum \<Rightarrow> jsnum \<Rightarrow> bool" where
  "num_within eps (Fin a) (Fin b) = (\<bar>a - b\<bar> \<le> eps)"
| "num_within eps a b = num_seq a b"

definition isAtStorage_spec :: "real \<Rightarrow> 'a ShelfMap_scheme \<Rightarrow> bool" where
  "isAtStorage_spec eps shelf =
     (num_within eps (coord_x (current shelf)) (coord_x (storage shelf))
      \<and> num_within eps (coord_y (current shelf)) (coord_y (storage shelf)))"

section \<open>The Shelves page: storage step of the edit form\<close>

text \<open>
  The Shelves page's edit form, step 3 of \<^verbatim>\<open>handleSubmit\<close>: the storage position is sent
  when a storage field of the form differs from the shelf being edited and the form has
  both \<^verbatim>\<open>storage_x\<close> and \<^verbatim>\<open>storage_y\<close>. The step reads the form and the shelf only;
  \<^verbatim>\<open>handleSubmit\<close> opens no confirmation dialog.
\<close>

record StorageFields =
  sf_storage_x :: "jsnum option"
  sf_storage_y :: "jsnum option"
  sf_storage_yaw :: "jsnum option"

text \<open>\<^verbatim>\<open>a !== b\<close> on values typed \<^verbatim>\<open>number | undefined\<close>.\<close>

fun opt_sneq :: "jsnum option \<Rightarrow> jsnum option \<Rightarrow> bool" where
  "opt_sneq None None = False"
| "opt_sneq (Some a) (Some b) = num_sneq a b"
| "opt_sneq a b = True"

text \<open>\<^verbatim>\<open>Number(v) || 0.0\<close> on such a value.\<close>

definition number_or_zero :: "jsnum option \<Rightarrow> jsnum" where
  "number_or_zero v =
     (case v of None \<Rightarrow> Fin 0 | Some n \<Rightarrow> if n = NaN \<or> n = Fin 0 then Fin 0 else n)"

text \<open>
  \<^verbatim>\<open>shelves.setStorageLocation\<close> up to its request: it throws on a NaN coordinate,
  otherwise it sends the payload with \<^verbatim>\<open>PUT /shelves/{id}/storage\<close>.
\<close>

definition setStorageLocation_request :: "string \<Rightarrow> StorageCoords \<Rightarrow> string + (string \<times> StorageCoords)" where
  "setStorageLocation_request shelfId sto =
     (if storage_x sto = NaN then Inl ''storage_x is required and must be a valid number''
      else if storage_y sto = NaN then Inl ''storage_y is required and must be a valid number''
      else Inr (shelfId, sto))"

definition handleSubmit_storage_step ::
  "StorageFields \<Rightarrow> string \<Rightarrow> StorageFields \<Rightarrow> (string + (string \<times> StorageCoords)) option" where
  "handleSubmit_storage_step formData editingId editingShelf =
     (let storageLocChanged =
            (opt_sneq (sf_storage_x formData) (sf_storage_x editingShelf)
             \<or> opt_sneq (sf_storage_y formData) (sf_storage_y editingShelf)
             \<or> opt_sneq (sf_storage_yaw formData) (sf_storage_yaw editingShelf))
      in case (sf_storage_x formData, sf_storage_y formData) of
           (Some fx, Some fy) \<Rightarrow>
             if storageLocChanged
             then Some (setStorageLocation_request editingId
                    \<lparr>storage_x = fx, storage_y = fy, storage_yaw = number_or_zero (sf_storage_yaw formData)\<rparr>)
             else None
         | _ \<Rightarrow> None)"

section \<open>Reconnect backoff of the task socket\<close>

text \<open>
  Arithmetic on doubles, as far as \<^verbatim>\<open>getReconnectDelay\<close> uses it. A finite result
  beyond the largest double overflows to an infinity. Rounding of inexact results is left
  out: the results formed here, \<open>2 ^ n\<close> and \<open>1000 * 2 ^ n\<close>, are doubles whenever they
  are in range.
\<close>

definition max_double :: real where
  "max_double = (2 - 1 / 2 ^ 52) * 2 ^ 1023"

definition overflow :: "real \<Rightarrow> jsnum" where
  "overflow r = (if r > max_double then PInf else if r < - max_double then NInf else Fin r)"

definition inf_times :: "real \<Rightarrow> jsnum" where
  "inf_times r = (if r = 0 then NaN else if r > 0 then PInf else NInf)"

fun js_times :: "jsnum \<Rightarrow> jsnum \<Rightarrow> jsnum" where
  "js_times (Fin a) (Fin b) = overflow (a * b)"
| "js_times (Fin a) PInf = inf_times a"
| "js_times (Fin a) NInf = inf_times (- a)"
| "js_times PInf (Fin b) = inf_times b"
| "js_times NInf (Fin b) = inf_times (- b)"
| "js_times PInf PInf = PInf"
| "js_times PInf NInf = NInf"
| "js_times NInf PInf = NInf"
| "js_times NInf NInf = PInf"
| "js_times NaN b = NaN"
| "js_times a NaN = NaN"

text \<open>\<^verbatim>\<open>Math.pow(2, n)\<close> for a count \<open>n\<close>, \<^verbatim>\<open>Math.min\<close> and \<^verbatim>\<open><=\<close>.\<close>

definition Math_pow2 :: "nat \<Rightarrow> jsnum" where
  "Math_pow2 n = overflow (2 ^ n)"

fun Math_min :: "jsnum \<Rightarrow> jsnum \<Rightarrow> jsnum" where
  "Math_min NaN b = NaN"
| "Math_min a NaN = NaN"
| "Math_min NInf b = NInf"
| "Math_min a NInf = NInf"
| "Math_min PInf b = b"
| "Math_min a PInf = a"
| "Math_min (Fin a) (Fin b) = Fin (min a b)"

fun num_le :: "jsnum \<Rightarrow> jsnum \<Rightarrow> bool" where
  "num_le NaN b = False"
| "num_le a NaN = False"
| "num_le NInf b = True"
| "num_le a PInf = True"
| "num_le PInf b = False"
| "num_le a NInf = False"
| "num_le (Fin a) (Fin b) = (a \<le> b)"

definition BASE_RECONNECT_DELAY :: jsnum where
  "BASE_RECONNECT_DELAY = Fin 1000"

text \<open>
  \<^verbatim>\<open>getReconnectDelay\<close> reads the reconnect count, a counter that starts at 0, is
  incremented on every disconnect and reset on connect.
\<close>

definition getReconnectDelay :: "nat \<Rightarrow> jsnum" where
  "getReconnectDelay reconnectCount =
     Math_min (js_times BASE_RECONNECT_DELAY (Math_pow2 reconnectCount)) (Fin 30000)"

section \<open>The shared socket of the socket service\<close>

text \<open>
  What \<^verbatim>\<open>connectWebSocket\<close> reads from the browser: the two token entries of the local
  storage (or a storage that throws), the configured URL and the page's location.
\<close>

record Browser =
  ls_throws :: bool
  ls_access_token :: "string option"
  ls_token :: "string option"
  VITE_WS_URL :: "string option"
  location_protocol :: string
  location_hostname :: string

definition getWebSocketUrl :: "Browser \<Rightarrow> string" where
  "getWebSocketUrl b =
     (case VITE_WS_URL b of
        Some envUrl \<Rightarrow>
          if envUrl \<noteq> [] then envUrl
          else (if location_protocol b = ''https:'' then ''wss:'' else ''ws:'')
                 @ ''//'' @ location_hostname b @ '':5000''
      | None \<Rightarrow>
          (if location_protocol b = ''https:'' then ''wss:'' else ''ws:'')
            @ ''//'' @ location_hostname b @ '':5000'')"

definition nonempty :: "string option \<Rightarrow> string option" where
  "nonempty v = (case v of None \<Rightarrow> None | Some s \<Rightarrow> if s = [] then None else Some s)"

definition getAuthToken :: "Browser \<Rightarrow> string option" where
  "getAuthToken b =
     (if ls_throws b then None
      else (case nonempty (ls_access_token b) of
              Some t \<Rightarrow> Some t
            | None \<Rightarrow> nonempty (ls_token b)))"

text \<open>
  A socket as \<^verbatim>\<open>io\<close> creates it, with the event names it has listeners for. The module
  holds the shared socket; \<open>opened\<close> lists the connections \<^verbatim>\<open>io\<close> has been asked for.
\<close>

record Socket =
  sock_url :: string
  sock_auth :: "string option"
  sock_listeners :: "string list"

record WsModule =
  socket :: "Socket option"
  opened :: "(string \<times> string option) list"

definition registered_events :: "string list" where
  "registered_events =
     [''connect'', ''disconnect'', ''connect_error'', ''reconnect_attempt'', ''telemetry'',
      ''map_update'', ''robot_status'', ''task_status'', ''error'', ''task_update'',
      ''robot_update'', ''shelf_update'', ''shelf_location_update'', ''robot_position_update'',
      ''task_progress_update'', ''system_update'']"

definition socket_on :: "string \<Rightarrow> Socket \<Rightarrow> Socket" where
  "socket_on ev s = s\<lparr>sock_listeners := sock_listeners s @ [ev]\<rparr>"

definition connectWebSocket :: "Browser \<Rightarrow> WsModule \<Rightarrow> Socket \<times> WsModule" where
  "connectWebSocket b m =
     (case socket m of
        Some s \<Rightarrow> (s, m)
      | None \<Rightarrow>
          (let token = getAuthToken b;
               created = \<lparr>sock_url = getWebSocketUrl b, sock_auth = token, sock_listeners = []\<rparr>;
               s = fold socket_on registered_events created
           in (s, m\<lparr>socket := Some s, opened := opened m @ [(getWebSocketUrl b, token)]\<rparr>)))"

definition disconnectWebSocket :: "WsModule \<Rightarrow> WsModule" where
  "disconnectWebSocket m = (case socket m of Some s \<Rightarrow> m\<lparr>socket := None\<rparr> | None \<Rightarrow> m)"

section \<open>Fixtures\<close>

text \<open>
  The scenario's fixtures: shelf \<open>S1\<close> at its storage position, a second shelf \<open>S2\<close> away
  from its storage position, one robot and no task.
\<close>

abbreviation scenario_S1 :: ShelfMap where
  "scenario_S1 \<equiv>
     \<lparr>shelf_id = ''S1'', warehouse_id = ''warehouse-1'',
      storage = \<lparr>coord_x = Fin 100, coord_y = Fin 150, coord_yaw = None\<rparr>,
      current = \<lparr>coord_x = Fin 100, coord_y = Fin 150, coord_yaw = None\<rparr>,
      location_status = ''STORED'', available = True, shelf_status = ''IDLE''\<rparr>"

abbreviation scenario_S2 :: ShelfMap where
  "scenario_S2 \<equiv>
     \<lparr>shelf_id = ''S2'', warehouse_id = ''warehouse-1'',
      storage = \<lparr>coord_x = Fin 10, coord_y = Fin 20, coord_yaw = Some (Fin 0)\<rparr>,
      current = \<lparr>coord_x = Fin 300, coord_y = Fin 400, coord_yaw = Some (Fin 0)\<rparr>,
      location_status = ''AT_DROP_ZONE'', available = False, shelf_status = ''BUSY''\<rparr>"

abbreviation scenario_R1 :: Robot where
  "scenario_R1 \<equiv>
     \<lparr>robot_id = ''r1'', robot_x = Fin 5, robot_y = Fin 7, robot_status = Some ''IDLE'',
      battery = Some (Fin 100), timestamp = None\<rparr>"

abbreviation scenario_store :: MapContext where
  "scenario_store \<equiv>
     \<lparr>tasks = [], shelves = [(''S1'', scenario_S1), (''S2'', scenario_S2)],
      robots = [(''r1'', scenario_R1)]\<rparr>"

text \<open>A row of the Shelves page: shelf \<open>S1\<close> at its storage position \<open>(100, 150)\<close>.\<close>

abbreviation page_S1 :: jsobj where
  "page_S1 \<equiv>
     [''id'' \<mapsto> JStr ''S1'', ''warehouse_id'' \<mapsto> JStr ''warehouse-1'',
      ''current_x'' \<mapsto> JNum (Fin 100), ''current_y'' \<mapsto> JNum (Fin 150),
      ''storage_x'' \<mapsto> JNum (Fin 100), ''storage_y'' \<mapsto> JNum (Fin 150)]"

text \<open>Three callbacks on a counter, the second of which throws, and a registry.\<close>

abbreviation cb_add :: "(nat, string, nat) callback" where
  "cb_add \<equiv> (\<lambda>d s. Normal (s + d))"

abbreviation cb_bad :: "(nat, string, nat) callback" where
  "cb_bad \<equiv> (\<lambda>d s. Thrown ''boom'' (s + 10))"

abbreviation cb_double :: "(nat, string, nat) callback" where
  "cb_double \<equiv> (\<lambda>d s. Normal (2 * s))"

abbreviation sample_registry :: "(nat, string, nat) registry" where
  "sample_registry \<equiv> [''telemetry'' \<mapsto> [cb_add, cb_bad, cb_double], ''map_update'' \<mapsto> [cb_double]]"

text \<open>A browser with a token under \<^verbatim>\<open>token\<close> and no configured URL.\<close>

abbreviation sample_browser :: Browser where
  "sample_browser \<equiv>
     \<lparr>ls_throws = False, ls_access_token = None, ls_token = Some ''jwt'', VITE_WS_URL = None,
      location_protocol = ''http:'', location_hostname = ''localhost''\<rparr>"

text \<open>
  A panel with the storage form hidden, and shelf \<open>S1\<close> moved off its storage position
  by \<open>1 / 2 ^ 20\<close> in x.
\<close>

abbreviation hidden_form :: Panel where
  "hidden_form \<equiv>
     \<lparr>isRestoring = False, showStorageForm = False,
      storageCoords = \<lparr>storage_x = Fin 200, storage_y = Fin 250, storage_yaw = Fin 0\<rparr>,
      panel_error = None, panel_success = None\<rparr>"

abbreviation nudged_S1 :: ShelfMap where
  "nudged_S1 \<equiv> scenario_S1\<lparr>current := \<lparr>coord_x = Fin (100 + 1 / 2 ^ 20), coord_y = Fin 150, coord_yaw = None\<rparr>\<rparr>"

text \<open>
  A panel world over the scenario's store, and three backends: one that answers with the
  shelf at its new storage position and its current position untouched, one that moves the
  current position along (as the repository's workflow test describes the admin move), and
  one that refuses.
\<close>

abbreviation panel_world :: PanelWorld where
  "panel_world \<equiv> \<lparr>panel = hidden_form\<lparr>showStorageForm := True\<rparr>, ctx = scenario_store, requests = []\<rparr>"

abbreviation backend_keeps_current :: "string \<Rightarrow> StorageCoords \<Rightarrow> ShelfMap fetch_result" where
  "backend_keeps_current \<equiv>
     (\<lambda>shelfId c. Response 200 ''OK''
        (scenario_S1\<lparr>storage := \<lparr>coord_x = storage_x c, coord_y = storage_y c, coord_yaw = Some (storage_yaw c)\<rparr>\<rparr>))"

abbreviation backend_moves_current :: "string \<Rightarrow> StorageCoords \<Rightarrow> ShelfMap fetch_result" where
  "backend_moves_current \<equiv>
     (\<lambda>shelfId c. Response 200 ''OK''
        (scenario_S1\<lparr>storage := \<lparr>coord_x = storage_x c, coord_y = storage_y c, coord_yaw = Some (storage_yaw c)\<rparr>,
                     current := \<lparr>coord_x = storage_x c, coord_y = storage_y c, coord_yaw = Some (storage_yaw c)\<rparr>\<rparr>))"

abbreviation backend_forbids :: "string \<Rightarrow> StorageCoords \<Rightarrow> ShelfMap fetch_result" where
  "backend_forbids \<equiv> (\<lambda>shelfId c. Response 403 ''FORBIDDEN'' scenario_S1)"

text \<open>
  A row of the Robots page, a telemetry payload whose position is \<^verbatim>\<open>null\<close>, a payload
  that carries a battery level only, and a shelf document as the REST API returns it.
\<close>

abbreviation row_r1 :: jsobj where
  "row_r1 \<equiv>
     [''id'' \<mapsto> JStr ''1'', ''name'' \<mapsto> JStr ''Robot 1'', ''robot_id'' \<mapsto> JStr ''r1'',
      ''x'' \<mapsto> JNum (Fin 5), ''y'' \<mapsto> JNum (Fin 7), ''battery_level'' \<mapsto> JNum (Fin 80)]"

abbreviation null_position :: jsobj where
  "null_position \<equiv> [''robot_id'' \<mapsto> JStr ''r1'', ''x'' \<mapsto> JNull, ''y'' \<mapsto> JNull]"

abbreviation battery_only :: jsobj where
  "battery_only \<equiv> [''robot_id'' \<mapsto> JStr ''r1'', ''battery_level'' \<mapsto> JNum (Fin 42)]"

abbreviation shelf_doc :: jsobj where
  "shelf_doc \<equiv>
     [''_id'' \<mapsto> JStr ''65f0'', ''current_x'' \<mapsto> JNum (Fin 3), ''current_y'' \<mapsto> JNull,
      ''storage_x'' \<mapsto> JBool True]"

section \<open>Auxiliary facts\<close>

lemma jsmap_get_set: "jsmap_get (jsmap_set k v m) k' = (if k' = k then Some v else jsmap_get m k')"
  by (induction m) (auto simp: jsmap_get_def)

lemma jsmap_keys_set_present:
  "jsmap_get m k = Some v0 \<Longrightarrow> map fst (jsmap_set k v m) = map fst m"
  by (induction m) (auto simp: jsmap_get_def split: if_splits)


lemma jsmap_set_absent: "jsmap_get m k = None \<Longrightarrow> jsmap_set k v m = m @ [(k, v)]"
  by (induction m) (auto simp: jsmap_get_def split: if_splits)

lemma setShelfCurrent_present:
  assumes "jsmap_get (shelves st) shelfId = Some shelf"
  shows "setShelfCurrent shelfId x y ls st =
           st\<lparr>shelves := jsmap_set shelfId
             (shelf\<lparr>current := \<lparr>coord_x = x, coord_y = y, coord_yaw = coord_yaw (current shelf)\<rparr>,
                    location_status := ls\<rparr>) (shelves st)\<rparr>"
  using assms by (simp add: setShelfCurrent_def)

subsection \<open>Storage under position updates\<close>

text \<open>
  \<^verbatim>\<open>setShelfCurrent\<close>, and any run of such calls, leaves the storage position of every
  shelf of the map context as it was.
\<close>

lemma setShelfCurrent_storage:
  "map_option storage (jsmap_get (shelves (setShelfCurrent shelfId x y ls st)) k)
     = map_option storage (jsmap_get (shelves st) k)"
  by (cases "jsmap_get (shelves st) shelfId") (auto simp: setShelfCurrent_def jsmap_get_set)

lemma apply_setShelfCurrent_calls_storage:
  "map_option storage (jsmap_get (shelves (apply_setShelfCurrent_calls calls st)) k)
     = map_option storage (jsmap_get (shelves st) k)"
proof (induction calls arbitrary: st)
  case Nil
  then show ?case by (simp add: apply_setShelfCurrent_calls_def)
next
  case (Cons c calls)
  obtain shelfId x y ls where c: "c = (shelfId, x, y, ls)" by (cases c) auto
  have "apply_setShelfCurrent_calls (c # calls) st
          = apply_setShelfCurrent_calls calls (setShelfCurrent shelfId x y ls st)"
    by (simp add: apply_setShelfCurrent_calls_def c)
  then show ?case by (simp add: Cons.IH setShelfCurrent_storage)
qed

text \<open>
  On the Shelves page, \<^verbatim>\<open>shelf_location_update\<close> leaves the storage position of every
  row as it was; \<^verbatim>\<open>shelf_update\<close> does so when the payload has none of the three
  \<^verbatim>\<open>storage_*\<close> properties.
\<close>

lemma storage_of_copy_current: "storage_of (copy_current data s) = storage_of s"
  by (simp add: storage_of_def copy_current_def getprop_def)

lemma on_shelf_location_update_storage:
  "map storage_of (shelfList (on_shelf_location_update data pg)) = map storage_of (shelfList pg)"
  by (simp add: on_shelf_location_update_def Let_def storage_of_copy_current o_def cong: if_cong)

lemma storage_of_spread_absent:
  "data ''storage_x'' = None \<Longrightarrow> data ''storage_y'' = None \<Longrightarrow> data ''storage_yaw'' = None
     \<Longrightarrow> storage_of (spread s data) = storage_of s"
  by (simp add: storage_of_def spread_def getprop_def map_add_def)

lemma on_shelf_update_storage_absent:
  "data ''storage_x'' = None \<Longrightarrow> data ''storage_y'' = None \<Longrightarrow> data ''storage_yaw'' = None
     \<Longrightarrow> map storage_of (shelfList (on_shelf_update data pg)) = map storage_of (shelfList pg)"
  by (simp add: on_shelf_update_def storage_of_spread_absent o_def cong: if_cong)

lemma apply_shelf_event_storage:
  "\<not> carries_storage ev
     \<Longrightarrow> map storage_of (shelfList (apply_shelf_event ev pg)) = map storage_of (shelfList pg)"
  by (cases ev) (auto simp: on_shelf_update_storage_absent on_shelf_location_update_storage)

lemma apply_shelf_events_storage:
  "list_all (\<lambda>ev. \<not> carries_storage ev) evs
     \<Longrightarrow> map storage_of (shelfList (apply_shelf_events evs pg)) = map storage_of (shelfList pg)"
proof (induction evs arbitrary: pg)
  case Nil
  then show ?case by (simp add: apply_shelf_events_def)
next
  case (Cons ev evs)
  then have "map storage_of (shelfList (apply_shelf_events evs (apply_shelf_event ev pg)))
               = map storage_of (shelfList (apply_shelf_event ev pg))"
    by simp
  with Cons.prems show ?case
    by (simp add: apply_shelf_events_def apply_shelf_event_storage del: apply_shelf_event.simps)
qed

subsection \<open>The reconnect delay\<close>

lemma max_double_big: "30000 \<le> max_double"
  by (simp add: max_double_def)

lemma getReconnectDelay_eq: "getReconnectDelay n = Fin (min (1000 * 2 ^ n) 30000)"
proof -
  have big: "30000 \<le> max_double" by (rule max_double_big)
  have pos: "- max_double < 2 ^ n" "- max_double < 1000 * 2 ^ n"
    using big by (smt (verit) zero_less_power mult_pos_pos)+
  show ?thesis
  proof (cases "(2::real) ^ n > max_double")
    case True
    then have "Math_pow2 n = PInf" by (simp add: Math_pow2_def overflow_def)
    moreover have "(30000::real) \<le> 1000 * 2 ^ n" using True big by linarith
    ultimately show ?thesis
      by (simp add: getReconnectDelay_def BASE_RECONNECT_DELAY_def inf_times_def)
  next
    case False
    then have p: "Math_pow2 n = Fin (2 ^ n)"
      using pos by (simp add: Math_pow2_def overflow_def)
    show ?thesis
    proof (cases "(1000::real) * 2 ^ n > max_double")
      case True
      then have "(30000::real) \<le> 1000 * 2 ^ n" using big by linarith
      with True p show ?thesis
        by (simp add: getReconnectDelay_def BASE_RECONNECT_DELAY_def overflow_def)
    next
      case False
      with p pos show ?thesis
        by (simp add: getReconnectDelay_def BASE_RECONNECT_DELAY_def overflow_def)
    qed
  qed
qed

subsection \<open>Dispatch\<close>

lemma guarded_call:
  "try_catch (call_callback cb data) (console_error msg) w
     = Normal (case cb data (app w) of
                 Normal s \<Rightarrow> w\<lparr>app := s\<rparr>
               | Thrown e s \<Rightarrow> w\<lparr>app := s, console := console w @ [(msg, e)]\<rparr>)"
  by (simp add: try_catch_def call_callback_def console_error_def split: outcome.split)

lemma forEach_total:
  assumes "\<And>a w. body a w = Normal (f a w)"
  shows "forEach body as w = Normal (fold f as w)"
  by (induction as arbitrary: w) (simp_all add: assms)

lemma fold_guarded:
  "fold (\<lambda>cb w. case cb data (app w) of
                   Normal s \<Rightarrow> w\<lparr>app := s\<rparr>
                 | Thrown e s \<Rightarrow> w\<lparr>app := s, console := console w @ [(msg, e)]\<rparr>) cbs w
     = w\<lparr>app := fold (\<lambda>cb s. state_of (cb data s)) cbs (app w),
         console := console w @ map (Pair msg) (thrown_values cbs data (app w))\<rparr>"
proof (induction cbs arbitrary: w)
  case Nil
  then show ?case by simp
next
  case (Cons cb cbs)
  show ?case
    by (cases "cb data (app w)") (simp_all add: Cons.IH)
qed

lemma forEach_guarded:
  "forEach (\<lambda>cb. try_catch (call_callback cb data) (console_error msg)) cbs w
     = Normal (w\<lparr>app := fold (\<lambda>cb s. state_of (cb data s)) cbs (app w),
                 console := console w @ map (Pair msg) (thrown_values cbs data (app w))\<rparr>)"
  by (simp only: forEach_total [where body = "\<lambda>cb. try_catch (call_callback cb data) (console_error msg)",
        OF guarded_call] fold_guarded)

lemma invoke_unguarded_stops:
  "invoke_unguarded sample_registry ''telemetry'' 1 \<lparr>app = 0, console = []\<rparr>
     = Thrown ''boom'' \<lparr>app = 11, console = []\<rparr>"
  by (simp add: invoke_unguarded_def call_callback_def)

subsection \<open>The shared socket\<close>

lemma connectWebSocket_existing: "socket m = Some s \<Longrightarrow> connectWebSocket b m = (s, m)"
  by (simp add: connectWebSocket_def)

lemma connectWebSocket_socket: "socket (snd (connectWebSocket b m)) = Some (fst (connectWebSocket b m))"
  by (cases "socket m") (simp_all add: connectWebSocket_def Let_def)

subsection \<open>The details panel\<close>

lemma num_sneq_Fin: "num_sneq (Fin a) (Fin b) = (a \<noteq> b)"
  by (simp add: num_sneq_def num_seq_def)

lemma Restore_rendered:
  "(Restore \<in> set (rendered_buttons p shelf)) = (\<not> showStorageForm p \<and> isDifferent shelf)"
  by (simp add: rendered_buttons_def)

subsection \<open>Setting the storage position from the panel\<close>

lemma handleSetStorage_declined:
  "handleSetStorage backend False shelf w
     = w\<lparr>panel := (panel w)\<lparr>panel_error := None, panel_success := None\<rparr>\<rparr>"
  by (simp add: handleSetStorage_def)

lemma handleSetStorage_ctx_ok:
  "mapApi_setShelfStorage (backend (shelf_id shelf) (storageCoords (panel w))) = Inr updated
     \<Longrightarrow> ctx (handleSetStorage backend True shelf w) = setShelf updated (ctx w)"
  by (simp add: handleSetStorage_def Let_def)

lemma handleSetStorage_ctx_failed:
  "mapApi_setShelfStorage (backend (shelf_id shelf) (storageCoords (panel w))) = Inl msg
     \<Longrightarrow> ctx (handleSetStorage backend True shelf w) = ctx w"
  by (simp add: handleSetStorage_def Let_def)

lemma handleSetStorage_requests:
  "requests (handleSetStorage backend True shelf w)
     = requests w @ [(shelf_id shelf, storageCoords (panel w))]"
  by (cases "mapApi_setShelfStorage (backend (shelf_id shelf) (storageCoords (panel w)))")
     (simp_all add: handleSetStorage_def Let_def)

subsection \<open>Coercion of inbound fields\<close>

lemma js_sneq_undefined: "js_sneq v JUndefined = (v \<noteq> JUndefined)"
  by (cases v) (simp_all add: js_sneq_def)

lemma getprop_upd: "getprop (ob(k \<mapsto> v)) k' = (if k' = k then v else getprop ob k')"
  by (simp add: getprop_def)

lemma num_or_alias_eq:
  "num_or_alias s2n data a b old =
     (if getprop data a \<noteq> JUndefined then JNum (js_Number s2n (getprop data a))
      else if getprop data b \<noteq> JUndefined then JNum (js_Number s2n (getprop data b))
      else old)"
  by (simp add: num_or_alias_def js_sneq_undefined)

lemma num_or_keep_eq:
  "num_or_keep s2n data k old =
     (if getprop data k \<noteq> JUndefined then JNum (js_Number s2n (getprop data k)) else old)"
  by (simp add: num_or_keep_def js_sneq_undefined)

lemma robots_row_keys:
  "getprop (robots_telemetry_row s2n data r) ''x'' = num_or_alias s2n data ''x'' ''current_x'' (getprop r ''x'')"
  "getprop (robots_telemetry_row s2n data r) ''y'' = num_or_alias s2n data ''y'' ''current_y'' (getprop r ''y'')"
  "getprop (robots_telemetry_row s2n data r) ''yaw'' = num_or_alias s2n data ''yaw'' ''current_yaw'' (getprop r ''yaw'')"
  "getprop (robots_telemetry_row s2n data r) ''current_x'' = num_or_alias s2n data ''x'' ''current_x'' (getprop r ''current_x'')"
  "getprop (robots_telemetry_row s2n data r) ''current_y'' = num_or_alias s2n data ''y'' ''current_y'' (getprop r ''current_y'')"
  "getprop (robots_telemetry_row s2n data r) ''current_yaw'' = num_or_alias s2n data ''yaw'' ''current_yaw'' (getprop r ''current_yaw'')"
  "getprop (robots_telemetry_row s2n data r) ''cpu_usage'' = num_or_keep s2n data ''cpu_usage'' (getprop r ''cpu_usage'')"
  "getprop (robots_telemetry_row s2n data r) ''ram_usage'' = num_or_keep s2n data ''ram_usage'' (getprop r ''ram_usage'')"
  "getprop (robots_telemetry_row s2n data r) ''battery_level'' = num_or_keep s2n data ''battery_level'' (getprop r ''battery_level'')"
  "getprop (robots_telemetry_row s2n data r) ''temperature'' = num_or_keep s2n data ''temperature'' (getprop r ''temperature'')"
  by (simp_all add: robots_telemetry_row_def getprop_upd split del: if_split)

lemma map_row_keys:
  "getprop (map_telemetry_row s2n data x y yaw r) ''x'' = JNum (js_Number s2n x)"
  "getprop (map_telemetry_row s2n data x y yaw r) ''y'' = JNum (js_Number s2n y)"
  "getprop (map_telemetry_row s2n data x y yaw r) ''current_x'' = JNum (js_Number s2n x)"
  "getprop (map_telemetry_row s2n data x y yaw r) ''current_y'' = JNum (js_Number s2n y)"
  by (simp_all add: map_telemetry_row_def getprop_upd split del: if_split)

lemma WarehouseMap_guard:
  "WarehouseMap_onTelemetry s2n data prev = prev"
  if "(if getprop data ''x'' \<noteq> JUndefined then getprop data ''x'' else getprop data ''current_x'') = JUndefined
      \<or> (if getprop data ''y'' \<noteq> JUndefined then getprop data ''y'' else getprop data ''current_y'') = JUndefined"
  using that unfolding WarehouseMap_onTelemetry_def Let_def js_sneq_undefined
  by (auto simp del: truthy.simps split del: if_split cong: if_weak_cong option.case_cong_weak)

lemma WarehouseMap_skips:
  "(getprop data ''x'' = JUndefined \<and> getprop data ''current_x'' = JUndefined)
   \<or> (getprop data ''y'' = JUndefined \<and> getprop data ''current_y'' = JUndefined)
   \<Longrightarrow> WarehouseMap_onTelemetry s2n data prev = prev"
  by (rule WarehouseMap_guard) auto

lemma js_sneq_null: "js_sneq v JNull = (v \<noteq> JNull)"
  by (cases v) (simp_all add: js_sneq_def)

lemma sanitize_key_other: "k' \<noteq> k \<Longrightarrow> getprop (sanitize_key s2n k out) k' = getprop out k'"
  by (simp add: sanitize_key_def Let_def getprop_upd)

lemma sanitize_key_same:
  "getprop (sanitize_key s2n k out) k =
     (if getprop out k = JUndefined \<or> getprop out k = JNull \<or> js_Number s2n (getprop out k) = NaN
      then getprop out k else JNum (js_Number s2n (getprop out k)))"
  by (simp add: sanitize_key_def Let_def getprop_upd js_sneq_undefined js_sneq_null)

lemma fold_sanitize_key_other:
  "k \<notin> set ks \<Longrightarrow> getprop (fold (sanitize_key s2n) ks out) k = getprop out k"
  by (induction ks arbitrary: out) (auto simp: sanitize_key_other)

lemma fold_sanitize_key_member:
  "distinct ks \<Longrightarrow> k \<in> set ks \<Longrightarrow>
   getprop (fold (sanitize_key s2n) ks out) k =
     (if getprop out k = JUndefined \<or> getprop out k = JNull \<or> js_Number s2n (getprop out k) = NaN
      then getprop out k else JNum (js_Number s2n (getprop out k)))"
proof (induction ks arbitrary: out)
  case Nil
  then show ?case by simp
next
  case (Cons a ks)
  show ?case
  proof (cases "k = a")
    case True
    with Cons.prems have "k \<notin> set ks" by simp
    then show ?thesis
      using True by (simp add: fold_sanitize_key_other sanitize_key_same)
  next
    case False
    with Cons.prems have "distinct ks" "k \<in> set ks" by simp_all
    then show ?thesis
      using False by (simp add: Cons.IH sanitize_key_other)
  qed
qed

lemma distinct_numericKeys: "distinct numericKeys"
  by (simp add: numericKeys_def)

lemma numericKeys_not_id: "k \<in> set numericKeys \<Longrightarrow> k \<noteq> ''id'' \<and> k \<noteq> ''_id''"
  by (auto simp: numericKeys_def)

lemma rename_id_other: "k \<noteq> ''id'' \<Longrightarrow> k \<noteq> ''_id'' \<Longrightarrow> getprop (rename_id n2s out) k = getprop out k"
  by (simp add: rename_id_def getprop_def)

lemma sanitizeDoc_numeric:
  assumes "sanitizeDoc s2n n2s (Obj doc) = Obj out" and "k \<in> set numericKeys"
  shows "getprop out k =
     (if getprop doc k = JUndefined \<or> getprop doc k = JNull \<or> js_Number s2n (getprop doc k) = NaN
      then getprop doc k else JNum (js_Number s2n (getprop doc k)))"
proof -
  from assms(1) have out: "out = fold (sanitize_key s2n) numericKeys (rename_id n2s doc)" by simp
  have same: "getprop (rename_id n2s doc) k = getprop doc k"
    using numericKeys_not_id [OF assms(2)] by (simp add: rename_id_other)
  show ?thesis
    unfolding out using fold_sanitize_key_member [OF distinct_numericKeys assms(2), of s2n "rename_id n2s doc"]
    by (simp add: same)
qed

lemma robots_row_position:
  assumes "(k, a, b) \<in> {(''x'', ''x'', ''current_x''), (''y'', ''y'', ''current_y''),
       (''yaw'', ''yaw'', ''current_yaw''), (''current_x'', ''x'', ''current_x''),
       (''current_y'', ''y'', ''current_y''), (''current_yaw'', ''yaw'', ''current_yaw'')}"
  shows "getprop (robots_telemetry_row s2n data r) k =
     (if getprop data a \<noteq> JUndefined then JNum (js_Number s2n (getprop data a))
      else if getprop data b \<noteq> JUndefined then JNum (js_Number s2n (getprop data b))
      else getprop r k)"
proof -
  have "getprop (robots_telemetry_row s2n data r) k = num_or_alias s2n data a b (getprop r k)"
    using assms by (elim insertE emptyE) (simp_all only: prod.inject robots_row_keys)
  then show ?thesis by (simp only: num_or_alias_eq)
qed

lemma robots_row_sensor:
  assumes "k \<in> {''cpu_usage'', ''ram_usage'', ''battery_level'', ''temperature''}"
  shows "getprop (robots_telemetry_row s2n data r) k =
     (if getprop data k \<noteq> JUndefined then JNum (js_Number s2n (getprop data k)) else getprop r k)"
proof -
  have "getprop (robots_telemetry_row s2n data r) k = num_or_keep s2n data k (getprop r k)"
    using assms by (elim insertE emptyE) (simp_all only: robots_row_keys)
  then show ?thesis by (simp only: num_or_keep_eq)
qed

lemma robots_isMatch_r1: "robots_isMatch row_r1 battery_only" "robots_isMatch row_r1 null_position"
  by (simp_all add: robots_isMatch_def getprop_def)

section \<open>Claims\<close>


subsection \<open>C1\<close>

text \<open>
  C1. Storage immutability under telemetry, poll and push updates. It holds for every run
  of \<^verbatim>\<open>setShelfCurrent\<close> calls (\<open>apply_setShelfCurrent_calls_storage\<close>) and for every run
  of push events on the Shelves page in which no \<^verbatim>\<open>shelf_update\<close> payload has a storage
  property (\<open>apply_shelf_events_storage\<close>). It fails for the \<^verbatim>\<open>shelf_update\<close> merge in
  general: the spread copies every property of the payload, the storage properties among
  them. In the run below a \<^verbatim>\<open>shelf_location_update\<close> moves \<open>S1\<close> and keeps its storage
  position \<open>(100, 150)\<close>; the \<^verbatim>\<open>shelf_update\<close> that follows carries
  \<^verbatim>\<open>storage_x: 0, storage_y: 0\<close> and moves the storage position to \<open>(0, 0)\<close>, with no
  admin action involved.
\<close>

theorem C1_shelf_update_overwrites_storage:
  "map storage_of (shelfList \<lparr>shelfList = [page_S1], selectedShelf = None\<rparr>)
     = [(JNum (Fin 100), JNum (Fin 150), JUndefined)]
 \<and> map storage_of
      (shelfList (apply_shelf_events
         [ShelfLocationUpdate [''id'' \<mapsto> JStr ''S1'', ''current_x'' \<mapsto> JNum (Fin 500),
                               ''current_y'' \<mapsto> JNum (Fin 500)]]
         \<lparr>shelfList = [page_S1], selectedShelf = None\<rparr>))
     = [(JNum (Fin 100), JNum (Fin 150), JUndefined)]
 \<and> map storage_of
      (shelfList (apply_shelf_events
         [ShelfLocationUpdate [''id'' \<mapsto> JStr ''S1'', ''current_x'' \<mapsto> JNum (Fin 500),
                               ''current_y'' \<mapsto> JNum (Fin 500)],
          ShelfUpdate [''id'' \<mapsto> JStr ''S1'', ''storage_x'' \<mapsto> JNum (Fin 0),
                       ''storage_y'' \<mapsto> JNum (Fin 0)]]
         \<lparr>shelfList = [page_S1], selectedShelf = None\<rparr>))
     = [(JNum (Fin 0), JNum (Fin 0), JUndefined)]"
  by (simp add: apply_shelf_events_def on_shelf_update_def on_shelf_location_update_def Let_def
      copy_current_def storage_of_def getprop_def spread_def)

subsection \<open>C2\<close>

text \<open>
  C2. The literal position update. A store that holds shelf \<open>S1\<close> with storage \<open>(100, 150)\<close>,
  current \<open>(100, 150)\<close> and location status \<open>STORED\<close> is updated by
  \<^verbatim>\<open>setShelfCurrent(S1, 500, 500, "AT_DROP_ZONE")\<close>: afterwards \<open>S1\<close> has the same
  storage, current \<open>(500, 500)\<close> and status \<open>AT_DROP_ZONE\<close>; its other fields, every other
  shelf, the order of the entries, the tasks and the robots are as before.
\<close>

theorem C2_setShelfCurrent_literal:
  assumes present: "jsmap_get (shelves st) ''S1'' = Some shelf"
    and sto: "storage shelf = \<lparr>coord_x = Fin 100, coord_y = Fin 150, coord_yaw = None\<rparr>"
    and cur: "current shelf = \<lparr>coord_x = Fin 100, coord_y = Fin 150, coord_yaw = None\<rparr>"
    and stat: "location_status shelf = ''STORED''"
  shows "jsmap_get (shelves (setShelfCurrent ''S1'' (Fin 500) (Fin 500) ''AT_DROP_ZONE'' st)) ''S1''
           = Some (shelf\<lparr>current := \<lparr>coord_x = Fin 500, coord_y = Fin 500, coord_yaw = None\<rparr>,
                         location_status := ''AT_DROP_ZONE''\<rparr>)
       \<and> (\<forall>k. k \<noteq> ''S1'' \<longrightarrow>
             jsmap_get (shelves (setShelfCurrent ''S1'' (Fin 500) (Fin 500) ''AT_DROP_ZONE'' st)) k
               = jsmap_get (shelves st) k)
       \<and> map fst (shelves (setShelfCurrent ''S1'' (Fin 500) (Fin 500) ''AT_DROP_ZONE'' st))
           = map fst (shelves st)
       \<and> tasks (setShelfCurrent ''S1'' (Fin 500) (Fin 500) ''AT_DROP_ZONE'' st) = tasks st
       \<and> robots (setShelfCurrent ''S1'' (Fin 500) (Fin 500) ''AT_DROP_ZONE'' st) = robots st"
proof -
  let ?shelf' = "shelf\<lparr>current := \<lparr>coord_x = Fin 500, coord_y = Fin 500, coord_yaw = None\<rparr>,
                       location_status := ''AT_DROP_ZONE''\<rparr>"
  have step: "setShelfCurrent ''S1'' (Fin 500) (Fin 500) ''AT_DROP_ZONE'' st
                = st\<lparr>shelves := jsmap_set ''S1'' ?shelf' (shelves st)\<rparr>"
    using setShelfCurrent_present [OF present] cur by simp
  have keys: "map fst (jsmap_set ''S1'' ?shelf' (shelves st)) = map fst (shelves st)"
    using present by (rule jsmap_keys_set_present)
  show ?thesis
    unfolding step using keys by (simp add: jsmap_get_set)
qed


theorem C2_setShelfCurrent_literal_witness:
  "jsmap_get (shelves (setShelfCurrent ''S1'' (Fin 500) (Fin 500) ''AT_DROP_ZONE'' scenario_store)) ''S1''
     = Some (scenario_S1\<lparr>current := \<lparr>coord_x = Fin 500, coord_y = Fin 500, coord_yaw = None\<rparr>,
                        location_status := ''AT_DROP_ZONE''\<rparr>)
   \<and> jsmap_get (shelves (setShelfCurrent ''S1'' (Fin 500) (Fin 500) ''AT_DROP_ZONE'' scenario_store)) ''S2''
     = Some scenario_S2"
proof -
  have present: "jsmap_get (shelves scenario_store) ''S1'' = Some scenario_S1"
    by (simp add: jsmap_get_def)
  have other: "jsmap_get (shelves scenario_store) ''S2'' = Some scenario_S2"
    by (simp add: jsmap_get_def)
  have ne: "''S2'' \<noteq> ''S1''" by simp
  from C2_setShelfCurrent_literal [OF present] ne other show ?thesis
    by simp
qed

subsection \<open>C3\<close>

text \<open>
  C3, as the code has it. In the details panel a storage change goes through
  \<^verbatim>\<open>window.confirm\<close>. When the dialog is declined, no request is sent and the map context
  is left as it was. When it is accepted, the request is sent; if the call succeeds, the
  map context stores the shelf the backend returned under that shelf's id (so the storage
  and the current position of the record are the ones the backend sent); if the call
  fails, the map context is left as it was.
\<close>

theorem C3_handleSetStorage_gate:
  "(\<not> confirmed \<longrightarrow>
       ctx (handleSetStorage backend confirmed shelf w) = ctx w
     \<and> requests (handleSetStorage backend confirmed shelf w) = requests w)
 \<and> (confirmed \<and> mapApi_setShelfStorage (backend (shelf_id shelf) (storageCoords (panel w))) = Inr updated \<longrightarrow>
       ctx (handleSetStorage backend confirmed shelf w) = setShelf updated (ctx w)
     \<and> jsmap_get (shelves (ctx (handleSetStorage backend confirmed shelf w))) (shelf_id updated) = Some updated
     \<and> requests (handleSetStorage backend confirmed shelf w)
         = requests w @ [(shelf_id shelf, storageCoords (panel w))])
 \<and> (confirmed \<and> mapApi_setShelfStorage (backend (shelf_id shelf) (storageCoords (panel w))) = Inl msg \<longrightarrow>
       ctx (handleSetStorage backend confirmed shelf w) = ctx w)"
proof (cases confirmed)
  case False
  then show ?thesis by (simp add: handleSetStorage_declined)
next
  case True
  then show ?thesis
    by (auto simp: handleSetStorage_ctx_ok handleSetStorage_ctx_failed handleSetStorage_requests
        setShelf_def jsmap_get_set)
qed

theorem C3_handleSetStorage_gate_witness:
  "ctx (handleSetStorage backend_keeps_current False scenario_S1 panel_world) = scenario_store
 \<and> requests (handleSetStorage backend_keeps_current False scenario_S1 panel_world) = []
 \<and> jsmap_get (shelves (ctx (handleSetStorage backend_keeps_current True scenario_S1 panel_world))) ''S1''
     = Some (scenario_S1\<lparr>storage := \<lparr>coord_x = Fin 200, coord_y = Fin 250, coord_yaw = Some (Fin 0)\<rparr>\<rparr>)
 \<and> requests (handleSetStorage backend_keeps_current True scenario_S1 panel_world)
     = [(''S1'', \<lparr>storage_x = Fin 200, storage_y = Fin 250, storage_yaw = Fin 0\<rparr>)]
 \<and> ctx (handleSetStorage backend_forbids True scenario_S1 panel_world) = scenario_store"
proof -
  have ok: "mapApi_setShelfStorage (backend_keeps_current (shelf_id scenario_S1) (storageCoords (panel panel_world)))
      = Inr (scenario_S1\<lparr>storage := \<lparr>coord_x = Fin 200, coord_y = Fin 250, coord_yaw = Some (Fin 0)\<rparr>\<rparr>)"
    by (simp add: mapApi_setShelfStorage_def)
  have no: "mapApi_setShelfStorage (backend_forbids (shelf_id scenario_S1) (storageCoords (panel panel_world)))
      = Inl ''Forbidden: Admin privileges required''"
    by (simp add: mapApi_setShelfStorage_def)
  have declined:
    "ctx (handleSetStorage backend_keeps_current False scenario_S1 panel_world) = ctx panel_world
     \<and> requests (handleSetStorage backend_keeps_current False scenario_S1 panel_world) = requests panel_world"
    using C3_handleSetStorage_gate [of False backend_keeps_current scenario_S1 panel_world] by blast
  have accepted:
    "jsmap_get (shelves (ctx (handleSetStorage backend_keeps_current True scenario_S1 panel_world)))
        (shelf_id (scenario_S1\<lparr>storage := \<lparr>coord_x = Fin 200, coord_y = Fin 250, coord_yaw = Some (Fin 0)\<rparr>\<rparr>))
       = Some (scenario_S1\<lparr>storage := \<lparr>coord_x = Fin 200, coord_y = Fin 250, coord_yaw = Some (Fin 0)\<rparr>\<rparr>)
     \<and> requests (handleSetStorage backend_keeps_current True scenario_S1 panel_world)
         = requests panel_world @ [(shelf_id scenario_S1, storageCoords (panel panel_world))]"
    using C3_handleSetStorage_gate [of True backend_keeps_current scenario_S1 panel_world
      "scenario_S1\<lparr>storage := \<lparr>coord_x = Fin 200, coord_y = Fin 250, coord_yaw = Some (Fin 0)\<rparr>\<rparr>"] ok
    by blast
  have refused: "ctx (handleSetStorage backend_forbids True scenario_S1 panel_world) = ctx panel_world"
    using C3_handleSetStorage_gate [of True backend_forbids scenario_S1 panel_world _
      "''Forbidden: Admin privileges required''"] no
    by blast
  from declined accepted refused show ?thesis by simp
qed

text \<open>
  C3 as stated fails. After a confirmed storage change the record in the map context is the
  backend's answer: with a backend that moves the shelf along with its storage position,
  the current position of \<open>S1\<close> changes from \<open>(100, 150)\<close> to \<open>(200, 250)\<close>.
  And the edit form of the Shelves page sends a changed storage position on submit, with no
  confirmation step in between.
\<close>

theorem C3_storage_set_counterexample:
  "map_option current (jsmap_get (shelves (ctx panel_world)) ''S1'')
     = Some \<lparr>coord_x = Fin 100, coord_y = Fin 150, coord_yaw = None\<rparr>
 \<and> map_option current
      (jsmap_get (shelves (ctx (handleSetStorage backend_moves_current True scenario_S1 panel_world))) ''S1'')
     = Some \<lparr>coord_x = Fin 200, coord_y = Fin 250, coord_yaw = Some (Fin 0)\<rparr>
 \<and> handleSubmit_storage_step
       \<lparr>sf_storage_x = Some (Fin 200), sf_storage_y = Some (Fin 250), sf_storage_yaw = None\<rparr>
       ''S1''
       \<lparr>sf_storage_x = Some (Fin 100), sf_storage_y = Some (Fin 150), sf_storage_yaw = None\<rparr>
     = Some (Inr (''S1'', \<lparr>storage_x = Fin 200, storage_y = Fin 250, storage_yaw = Fin 0\<rparr>))"
  by (simp add: handleSetStorage_def Let_def mapApi_setShelfStorage_def setShelf_def jsmap_get_def
      handleSubmit_storage_step_def setStorageLocation_request_def number_or_zero_def
      num_sneq_def num_seq_def)

subsection \<open>C4\<close>

text \<open>
  C4. A patch addressed to an id with no record is dropped: \<^verbatim>\<open>setShelfCurrent\<close> on an unknown
  shelf, \<^verbatim>\<open>setRobotPosition\<close> on an unknown robot and \<^verbatim>\<open>updateTaskStatus\<close> on an unknown
  task each return the store they were given, so no record is created and none is changed.
\<close>

theorem C4_unknown_id_drop:
  "(jsmap_get (shelves st) shelfId = None \<longrightarrow> setShelfCurrent shelfId x y ls st = st)
 \<and> (jsmap_get (robots st) robotId = None \<longrightarrow> setRobotPosition robotId x y st = st)
 \<and> (jsmap_get (tasks st) taskId = None \<longrightarrow> updateTaskStatus taskId status st = st)"
  by (simp add: setShelfCurrent_def setRobotPosition_def updateTaskStatus_def)

theorem C4_unknown_id_drop_witness:
  "setShelfCurrent ''S9'' (Fin 1) (Fin 2) ''IN_TRANSIT'' scenario_store = scenario_store
 \<and> setRobotPosition ''r99'' (Fin 1) (Fin 2) scenario_store = scenario_store
 \<and> updateTaskStatus ''task-9'' ''COMPLETED'' scenario_store = scenario_store"
proof -
  have a: "jsmap_get (shelves scenario_store) ''S9'' = None" by (simp add: jsmap_get_def)
  have b: "jsmap_get (robots scenario_store) ''r99'' = None" by (simp add: jsmap_get_def)
  have c: "jsmap_get (tasks scenario_store) ''task-9'' = None" by (simp add: jsmap_get_def)
  from C4_unknown_id_drop [of scenario_store "''S9''" "Fin 1" "Fin 2" "''IN_TRANSIT''" "''r99''"
      "''task-9''" "''COMPLETED''"] a b c
  show ?thesis by blast
qed

subsection \<open>C5\<close>

text \<open>
  C5, as the code has it. A coordinate or telemetry field that is present in a payload is
  coerced with \<^verbatim>\<open>Number\<close> and written, whatever it holds; only a field that is
  \<^verbatim>\<open>undefined\<close> (under each alias the handler reads) leaves the stored value in place.
  On the Robots page a matching row gets, for each position field, the coercion of the
  first defined alias, and for each sensor field the coercion of the payload's value. The
  warehouse map skips the whole update when x or y is undefined under both aliases.
  \<^verbatim>\<open>sanitizeDoc\<close> replaces the value under a numeric key by its coercion unless the value
  is \<^verbatim>\<open>undefined\<close> or \<^verbatim>\<open>null\<close> or the coercion is NaN; in those cases the value stays
  as it was received.
\<close>

theorem C5_number_coercion:
  "(i < length prev \<longrightarrow>
      Robots_onTelemetry s2n data prev ! i =
        (if robots_isMatch (prev ! i) data then robots_telemetry_row s2n data (prev ! i) else prev ! i))
 \<and> ((k, a, b) \<in> {(''x'', ''x'', ''current_x''), (''y'', ''y'', ''current_y''),
         (''yaw'', ''yaw'', ''current_yaw''), (''current_x'', ''x'', ''current_x''),
         (''current_y'', ''y'', ''current_y''), (''current_yaw'', ''yaw'', ''current_yaw'')} \<longrightarrow>
      getprop (robots_telemetry_row s2n data r) k =
        (if getprop data a \<noteq> JUndefined then JNum (js_Number s2n (getprop data a))
         else if getprop data b \<noteq> JUndefined then JNum (js_Number s2n (getprop data b))
         else getprop r k))
 \<and> (k \<in> {''cpu_usage'', ''ram_usage'', ''battery_level'', ''temperature''} \<longrightarrow>
      getprop (robots_telemetry_row s2n data r) k =
        (if getprop data k \<noteq> JUndefined then JNum (js_Number s2n (getprop data k)) else getprop r k))
 \<and> ((getprop data ''x'' = JUndefined \<and> getprop data ''current_x'' = JUndefined)
      \<or> (getprop data ''y'' = JUndefined \<and> getprop data ''current_y'' = JUndefined) \<longrightarrow>
      WarehouseMap_onTelemetry s2n data mapData = mapData)
 \<and> (sanitizeDoc s2n n2s (Obj doc) = Obj out \<and> k \<in> set numericKeys \<longrightarrow>
      getprop out k =
        (if getprop doc k = JUndefined \<or> getprop doc k = JNull \<or> js_Number s2n (getprop doc k) = NaN
         then getprop doc k else JNum (js_Number s2n (getprop doc k))))"
proof (intro conjI impI)
  assume "i < length prev"
  then show "Robots_onTelemetry s2n data prev ! i =
        (if robots_isMatch (prev ! i) data then robots_telemetry_row s2n data (prev ! i) else prev ! i)"
    by (simp add: Robots_onTelemetry_def)
next
  assume "(k, a, b) \<in> {(''x'', ''x'', ''current_x''), (''y'', ''y'', ''current_y''),
         (''yaw'', ''yaw'', ''current_yaw''), (''current_x'', ''x'', ''current_x''),
         (''current_y'', ''y'', ''current_y''), (''current_yaw'', ''yaw'', ''current_yaw'')}"
  then show "getprop (robots_telemetry_row s2n data r) k =
        (if getprop data a \<noteq> JUndefined then JNum (js_Number s2n (getprop data a))
         else if getprop data b \<noteq> JUndefined then JNum (js_Number s2n (getprop data b))
         else getprop r k)"
    by (rule robots_row_position)
next
  assume "k \<in> {''cpu_usage'', ''ram_usage'', ''battery_level'', ''temperature''}"
  then show "getprop (robots_telemetry_row s2n data r) k =
        (if getprop data k \<noteq> JUndefined then JNum (js_Number s2n (getprop data k)) else getprop r k)"
    by (rule robots_row_sensor)
next
  assume "(getprop data ''x'' = JUndefined \<and> getprop data ''current_x'' = JUndefined)
      \<or> (getprop data ''y'' = JUndefined \<and> getprop data ''current_y'' = JUndefined)"
  then show "WarehouseMap_onTelemetry s2n data mapData = mapData"
    by (rule WarehouseMap_skips)
next
  assume "sanitizeDoc s2n n2s (Obj doc) = Obj out \<and> k \<in> set numericKeys"
  then show "getprop out k =
        (if getprop doc k = JUndefined \<or> getprop doc k = JNull \<or> js_Number s2n (getprop doc k) = NaN
         then getprop doc k else JNum (js_Number s2n (getprop doc k)))"
    using sanitizeDoc_numeric by blast
qed

theorem C5_number_coercion_witness:
  "\<forall>s2n n2s.
     map (\<lambda>r. (getprop r ''x'', getprop r ''battery_level'')) (Robots_onTelemetry s2n battery_only [row_r1])
       = [(JNum (Fin 5), JNum (Fin 42))]
   \<and> WarehouseMap_onTelemetry s2n battery_only (Some \<lparr>md_robots = Some [row_r1]\<rparr>)
       = Some \<lparr>md_robots = Some [row_r1]\<rparr>
   \<and> (case sanitizeDoc s2n n2s (Obj shelf_doc) of
         Prim v \<Rightarrow> False
       | Obj out \<Rightarrow> getprop out ''current_x'' = JNum (Fin 3) \<and> getprop out ''current_y'' = JNull
                    \<and> getprop out ''storage_x'' = JNum (Fin 1) \<and> getprop out ''yaw'' = JUndefined)"
proof (intro allI conjI)
  fix s2n :: "string \<Rightarrow> jsnum" and n2s :: "jsnum \<Rightarrow> string"
  let ?row = "robots_telemetry_row s2n battery_only row_r1"
  let ?md = "Some \<lparr>md_robots = Some [row_r1]\<rparr>"
  let ?out = "fold (sanitize_key s2n) numericKeys (rename_id n2s shelf_doc)"
  have doc: "sanitizeDoc s2n n2s (Obj shelf_doc) = Obj ?out" by simp
  note inst = C5_number_coercion [where s2n = s2n and n2s = n2s and data = battery_only and r = row_r1
      and prev = "[row_r1]" and i = 0 and mapData = ?md and doc = shelf_doc and out = ?out]
  note at_x = inst [where k = "''x''" and a = "''x''" and b = "''current_x''"]
  note at_battery = inst [where k = "''battery_level''" and a = "''x''" and b = "''current_x''"]
  note nth = at_x [THEN conjunct1]
  note pos = at_x [THEN conjunct2, THEN conjunct1]
  note sens = at_battery [THEN conjunct2, THEN conjunct2, THEN conjunct1]
  note skip = at_x [THEN conjunct2, THEN conjunct2, THEN conjunct2, THEN conjunct1]
  have san: "getprop ?out k =
        (if getprop shelf_doc k = JUndefined \<or> getprop shelf_doc k = JNull
            \<or> js_Number s2n (getprop shelf_doc k) = NaN
         then getprop shelf_doc k else JNum (js_Number s2n (getprop shelf_doc k)))"
    if "k \<in> set numericKeys" for k
    using inst [where k = k and a = "''x''" and b = "''current_x''",
        THEN conjunct2, THEN conjunct2, THEN conjunct2, THEN conjunct2] doc that
    by (simp only: simp_thms)
  have list: "Robots_onTelemetry s2n battery_only [row_r1] = [?row]"
  proof -
    have "Robots_onTelemetry s2n battery_only [row_r1] ! 0 = ?row"
      using nth robots_isMatch_r1(1) by (simp del: fun_upd_apply)
    moreover have "length (Robots_onTelemetry s2n battery_only [row_r1]) = 1"
      by (simp add: Robots_onTelemetry_def del: fun_upd_apply)
    ultimately show ?thesis
      by (cases "Robots_onTelemetry s2n battery_only [row_r1]") (simp_all del: fun_upd_apply)
  qed
  have x: "getprop ?row ''x'' = JNum (Fin 5)"
    using pos by (simp add: getprop_def)
  have bat: "getprop ?row ''battery_level'' = JNum (Fin 42)"
    using sens by (simp add: getprop_def)
  show "map (\<lambda>r. (getprop r ''x'', getprop r ''battery_level'')) (Robots_onTelemetry s2n battery_only [row_r1])
       = [(JNum (Fin 5), JNum (Fin 42))]"
    by (simp only: list list.map x bat)
  show "WarehouseMap_onTelemetry s2n battery_only ?md = ?md"
    using skip by (simp add: getprop_def)
  have "getprop ?out ''current_x'' = JNum (Fin 3)"
    using san [of "''current_x''"] by (simp add: getprop_def numericKeys_def)
  moreover have "getprop ?out ''current_y'' = JNull"
    using san [of "''current_y''"] by (simp add: getprop_def numericKeys_def)
  moreover have "getprop ?out ''storage_x'' = JNum (Fin 1)"
    using san [of "''storage_x''"] by (simp add: getprop_def numericKeys_def)
  moreover have "getprop ?out ''yaw'' = JUndefined"
    using san [of "''yaw''"] by (simp add: getprop_def numericKeys_def)
  ultimately show "case sanitizeDoc s2n n2s (Obj shelf_doc) of
         Prim v \<Rightarrow> False
       | Obj out \<Rightarrow> getprop out ''current_x'' = JNum (Fin 3) \<and> getprop out ''current_y'' = JNull
                    \<and> getprop out ''storage_x'' = JNum (Fin 1) \<and> getprop out ''yaw'' = JUndefined"
    by (simp only: doc jsdoc.case)
qed

text \<open>
  C5 as stated fails. A telemetry payload for robot \<open>r1\<close> with \<^verbatim>\<open>x: null, y: null\<close> is
  not dropped: on the Robots page and on the warehouse map the robot's position \<open>(5, 7)\<close>
  is overwritten with \<open>(0, 0)\<close>, whatever the reading of strings as numbers is.
\<close>

theorem C5_null_overwrites_position_counterexample:
  "\<forall>s2n.
     map (\<lambda>r. (getprop r ''x'', getprop r ''y'')) [row_r1] = [(JNum (Fin 5), JNum (Fin 7))]
   \<and> map (\<lambda>r. (getprop r ''x'', getprop r ''y'')) (Robots_onTelemetry s2n null_position [row_r1])
       = [(JNum (Fin 0), JNum (Fin 0))]
   \<and> map_option (map (\<lambda>r. (getprop r ''x'', getprop r ''y'')))
        (case WarehouseMap_onTelemetry s2n null_position (Some \<lparr>md_robots = Some [row_r1]\<rparr>) of
           None \<Rightarrow> None | Some md \<Rightarrow> md_robots md)
       = Some [(JNum (Fin 0), JNum (Fin 0))]"
proof (intro allI conjI)
  fix s2n :: "string \<Rightarrow> jsnum"
  show "map (\<lambda>r. (getprop r ''x'', getprop r ''y'')) [row_r1] = [(JNum (Fin 5), JNum (Fin 7))]"
    by (simp add: getprop_def)
  have list: "Robots_onTelemetry s2n null_position [row_r1] = [robots_telemetry_row s2n null_position row_r1]"
    using robots_isMatch_r1(2) by (simp add: Robots_onTelemetry_def del: fun_upd_apply)
  have x: "getprop (robots_telemetry_row s2n null_position row_r1) ''x'' = JNum (Fin 0)"
    by (simp only: robots_row_keys num_or_alias_eq, simp add: getprop_def)
  have y: "getprop (robots_telemetry_row s2n null_position row_r1) ''y'' = JNum (Fin 0)"
    by (simp only: robots_row_keys num_or_alias_eq, simp add: getprop_def)
  show "map (\<lambda>r. (getprop r ''x'', getprop r ''y'')) (Robots_onTelemetry s2n null_position [row_r1])
       = [(JNum (Fin 0), JNum (Fin 0))]"
    by (simp only: list list.map x y)
  have m: "map_robot_matches (JStr ''r1'') row_r1"
    by (simp add: map_robot_matches_def getprop_def)
  have rid: "js_or (js_or (getprop null_position ''robot_id'') (getprop null_position ''robot''))
                (getprop null_position ''id'') = JStr ''r1''"
    by (simp add: getprop_def js_or_def)
  have xv: "(if getprop null_position ''x'' \<noteq> JUndefined then getprop null_position ''x''
             else getprop null_position ''current_x'') = JNull"
    by (simp add: getprop_def)
  have yv: "(if getprop null_position ''y'' \<noteq> JUndefined then getprop null_position ''y''
             else getprop null_position ''current_y'') = JNull"
    by (simp add: getprop_def)
  have yawv: "(if getprop null_position ''yaw'' \<noteq> JUndefined then getprop null_position ''yaw''
               else js_nullish (getprop null_position ''current_yaw'') (JNum (Fin 0))) = JNum (Fin 0)"
    by (simp add: getprop_def js_nullish_def)
  have w: "WarehouseMap_onTelemetry s2n null_position (Some \<lparr>md_robots = Some [row_r1]\<rparr>)
      = Some \<lparr>md_robots = Some [map_telemetry_row s2n null_position JNull JNull (JNum (Fin 0)) row_r1]\<rparr>"
    unfolding WarehouseMap_onTelemetry_def Let_def js_sneq_undefined rid xv yv yawv
    using m by (simp del: fun_upd_apply split del: if_split)
  show "map_option (map (\<lambda>r. (getprop r ''x'', getprop r ''y'')))
        (case WarehouseMap_onTelemetry s2n null_position (Some \<lparr>md_robots = Some [row_r1]\<rparr>) of
           None \<Rightarrow> None | Some md \<Rightarrow> md_robots md)
       = Some [(JNum (Fin 0), JNum (Fin 0))]"
    by (simp add: w map_row_keys del: fun_upd_apply)
qed

subsection \<open>C6\<close>

text \<open>
  C6. Bulk replace is idempotent: for every snapshot and every prior store, \<^verbatim>\<open>setTasks\<close>,
  \<^verbatim>\<open>setShelves\<close> and \<^verbatim>\<open>setRobots\<close> applied twice with the same snapshot leave the store
  that one application leaves.
\<close>

theorem C6_bulk_replace_idempotent:
  "setTasks newTasks (setTasks newTasks st) = setTasks newTasks st
 \<and> setShelves newShelves (setShelves newShelves st) = setShelves newShelves st
 \<and> setRobots newRobots (setRobots newRobots st) = setRobots newRobots st"
  by (simp add: setTasks_def setShelves_def setRobots_def)

subsection \<open>C7\<close>

text \<open>
  C7. Event-dispatch isolation. For every registry, event name, payload and state,
  \<^verbatim>\<open>invokeCallbacks\<close> returns normally, whether or not callbacks throw; every callback
  registered for the event is run, in order, on the state its predecessors left, and each
  thrown value is written to the console instead of reaching the caller. An event with no
  registered callbacks leaves the state as it is.
\<close>

theorem C7_invokeCallbacks_isolation:
  "invokeCallbacks callbackRegistry eventName data w =
     Normal (case callbackRegistry eventName of
               None \<Rightarrow> w
             | Some cbs \<Rightarrow>
                 w\<lparr>app := fold (\<lambda>cb s. state_of (cb data s)) cbs (app w),
                   console := console w
                     @ map (Pair (''Error invoking callback for '' @ eventName @ '':''))
                         (thrown_values cbs data (app w))\<rparr>)"
  by (simp add: invokeCallbacks_def forEach_guarded split: option.split)

theorem C7_invokeCallbacks_isolation_witness:
  "invokeCallbacks sample_registry ''telemetry'' 1 \<lparr>app = 0, console = []\<rparr>
     = Normal \<lparr>app = 22, console = [(''Error invoking callback for telemetry:'', ''boom'')]\<rparr>
 \<and> invokeCallbacks sample_registry ''shelf_update'' 1 \<lparr>app = 0, console = []\<rparr>
     = Normal \<lparr>app = 0, console = []\<rparr>"
  using C7_invokeCallbacks_isolation [of sample_registry "''telemetry''" 1 "\<lparr>app = 0, console = []\<rparr>"]
    C7_invokeCallbacks_isolation [of sample_registry "''shelf_update''" 1 "\<lparr>app = 0, console = []\<rparr>"]
  by simp

subsection \<open>C8\<close>

text \<open>
  C8, as the code has it. The panel compares the current and the storage position exactly:
  for finite coordinates \<^verbatim>\<open>isDifferent\<close> holds as soon as the x or the y values differ
  at all (no tolerance is applied, and yaw is not compared). The Restore button is rendered
  exactly when the storage form is hidden and \<^verbatim>\<open>isDifferent\<close> holds.
\<close>

theorem C8_restore_exact_comparison:
  "(Restore \<in> set (rendered_buttons p shelf)) = (\<not> showStorageForm p \<and> isDifferent shelf)
 \<and> (coord_x (current shelf) = Fin cx \<and> coord_y (current shelf) = Fin cy
      \<and> coord_x (storage shelf) = Fin sx \<and> coord_y (storage shelf) = Fin sy
      \<longrightarrow> isDifferent shelf = (cx \<noteq> sx \<or> cy \<noteq> sy))"
  by (simp add: Restore_rendered isDifferent_def num_sneq_Fin)

theorem C8_restore_exact_comparison_witness:
  "isDifferent scenario_S2 \<and> Restore \<in> set (rendered_buttons hidden_form scenario_S2)
 \<and> \<not> isDifferent scenario_S1 \<and> Restore \<notin> set (rendered_buttons hidden_form scenario_S1)
 \<and> Restore \<notin> set (rendered_buttons (hidden_form\<lparr>showStorageForm := True\<rparr>) scenario_S2)"
  using C8_restore_exact_comparison [of hidden_form scenario_S2 300 400 10 20]
        C8_restore_exact_comparison [of hidden_form scenario_S1 100 150 100 150]
        C8_restore_exact_comparison [of "hidden_form\<lparr>showStorageForm := True\<rparr>" scenario_S2 300 400 10 20]
  by simp

text \<open>
  C8 as stated fails. A shelf within a thousandth of its storage position is still reported
  as different and offered the Restore button; a shelf far from its storage position is not
  offered the button while the storage form is open; and no positive tolerance makes
  \<^verbatim>\<open>isDifferent\<close> the negation of equality within that tolerance.
\<close>

theorem C8_no_epsilon_counterexample:
  "isAtStorage_spec (1 / 1000) nudged_S1 \<and> isDifferent nudged_S1
 \<and> Restore \<in> set (rendered_buttons hidden_form nudged_S1)
 \<and> \<not> isAtStorage_spec (1 / 1000) scenario_S2
 \<and> Restore \<notin> set (rendered_buttons (hidden_form\<lparr>showStorageForm := True\<rparr>) scenario_S2)
 \<and> \<not> (\<exists>eps>0. \<forall>shelf::ShelfMap. isDifferent shelf = (\<not> isAtStorage_spec eps shelf))"
proof -
  have a: "isAtStorage_spec (1 / 1000) nudged_S1"
    by (simp add: isAtStorage_spec_def)
  have b: "isDifferent nudged_S1"
    by (simp add: isDifferent_def num_sneq_Fin)
  have c: "Restore \<in> set (rendered_buttons hidden_form nudged_S1)"
    using b by (simp add: Restore_rendered)
  have d: "\<not> isAtStorage_spec (1 / 1000) scenario_S2"
    by (simp add: isAtStorage_spec_def)
  have e: "Restore \<notin> set (rendered_buttons (hidden_form\<lparr>showStorageForm := True\<rparr>) scenario_S2)"
    by (simp add: Restore_rendered)
  have f: "\<not> (\<exists>eps>0. \<forall>shelf::ShelfMap. isDifferent shelf = (\<not> isAtStorage_spec eps shelf))"
  proof
    assume "\<exists>eps>0. \<forall>shelf::ShelfMap. isDifferent shelf = (\<not> isAtStorage_spec eps shelf)"
    then obtain eps where pos: "eps > 0"
      and all: "\<And>shelf::ShelfMap. isDifferent shelf = (\<not> isAtStorage_spec eps shelf)" by blast
    let ?sh = "scenario_S1\<lparr>current := \<lparr>coord_x = Fin (100 + eps), coord_y = Fin 150, coord_yaw = None\<rparr>\<rparr>"
    have "isDifferent ?sh" using pos by (simp add: isDifferent_def num_sneq_Fin)
    moreover have "isAtStorage_spec eps ?sh" using pos by (simp add: isAtStorage_spec_def)
    ultimately show False using all [of ?sh] by simp
  qed
  from a b c d e f show ?thesis by blast
qed

subsection \<open>C9\<close>

text \<open>
  C9. The reconnect delay is exponential in the reconnect count and capped: for every count
  \<open>n\<close>, \<^verbatim>\<open>getReconnectDelay\<close> returns \<open>min (1000 * 2 ^ n) 30000\<close>; it never exceeds 30000
  and it does not decrease when the count grows. This includes the counts at which
  \<^verbatim>\<open>Math.pow\<close> or the product overflow to infinity.
\<close>

theorem C9_reconnect_delay:
  "getReconnectDelay n = Fin (min (1000 * 2 ^ n) 30000)
   \<and> num_le (getReconnectDelay n) (Fin 30000)
   \<and> (m \<le> n \<longrightarrow> num_le (getReconnectDelay m) (getReconnectDelay n))"
proof -
  have mono: "min ((1000::real) * 2 ^ m) 30000 \<le> min (1000 * 2 ^ n) 30000" if "m \<le> n"
    using that by (intro min.mono) (simp_all add: power_increasing)
  show ?thesis
    using mono by (simp add: getReconnectDelay_eq)
qed

theorem C9_reconnect_delay_witness:
  "getReconnectDelay 3 = Fin 8000 \<and> getReconnectDelay 5 = Fin 30000
   \<and> getReconnectDelay 2000 = Fin 30000
   \<and> num_le (getReconnectDelay 3) (getReconnectDelay 5)"
  using C9_reconnect_delay [of 3 3] C9_reconnect_delay [of 5 3] C9_reconnect_delay [of 2000 0]
  by simp

subsection \<open>C10\<close>

text \<open>
  C10. The shared socket is a singleton: when a socket exists, \<^verbatim>\<open>connectWebSocket\<close>
  returns it and leaves the module as it is, so no connection is opened and no listener
  is added; a second call after any call returns what the first returned.
\<close>

theorem C10_connectWebSocket_singleton:
  "(socket m = Some s \<longrightarrow> connectWebSocket b m = (s, m))
 \<and> connectWebSocket b' (snd (connectWebSocket b m)) = connectWebSocket b m"
proof -
  have "connectWebSocket b' (snd (connectWebSocket b m))
          = (fst (connectWebSocket b m), snd (connectWebSocket b m))"
    by (rule connectWebSocket_existing) (rule connectWebSocket_socket)
  then show ?thesis by (simp add: connectWebSocket_existing)
qed

theorem C10_connectWebSocket_singleton_witness:
  "fst (connectWebSocket sample_browser \<lparr>socket = None, opened = []\<rparr>)
     = \<lparr>sock_url = ''ws://localhost:5000'', sock_auth = Some ''jwt'', sock_listeners = registered_events\<rparr>
 \<and> opened (snd (connectWebSocket sample_browser \<lparr>socket = None, opened = []\<rparr>))
     = [(''ws://localhost:5000'', Some ''jwt'')]
 \<and> connectWebSocket sample_browser (snd (connectWebSocket sample_browser \<lparr>socket = None, opened = []\<rparr>))
     = connectWebSocket sample_browser \<lparr>socket = None, opened = []\<rparr>
 \<and> connectWebSocket sample_browser
       \<lparr>socket = Some \<lparr>sock_url = ''ws://h:5000'', sock_auth = None, sock_listeners = []\<rparr>, opened = []\<rparr>
     = (\<lparr>sock_url = ''ws://h:5000'', sock_auth = None, sock_listeners = []\<rparr>,
        \<lparr>socket = Some \<lparr>sock_url = ''ws://h:5000'', sock_auth = None, sock_listeners = []\<rparr>, opened = []\<rparr>)"
proof -
  have made: "fst (connectWebSocket sample_browser \<lparr>socket = None, opened = []\<rparr>)
     = \<lparr>sock_url = ''ws://localhost:5000'', sock_auth = Some ''jwt'', sock_listeners = registered_events\<rparr>"
    by (simp add: connectWebSocket_def Let_def getAuthToken_def nonempty_def getWebSocketUrl_def
        registered_events_def socket_on_def)
  have op: "opened (snd (connectWebSocket sample_browser \<lparr>socket = None, opened = []\<rparr>))
     = [(''ws://localhost:5000'', Some ''jwt'')]"
    by (simp add: connectWebSocket_def Let_def getAuthToken_def nonempty_def getWebSocketUrl_def)
  from C10_connectWebSocket_singleton [of "\<lparr>socket = None, opened = []\<rparr>" _ sample_browser sample_browser]
    C10_connectWebSocket_singleton
      [of "\<lparr>socket = Some \<lparr>sock_url = ''ws://h:5000'', sock_auth = None, sock_listeners = []\<rparr>, opened = []\<rparr>"
          "\<lparr>sock_url = ''ws://h:5000'', sock_auth = None, sock_listeners = []\<rparr>" sample_browser sample_browser]
    made op
  show ?thesis by simp
qed

end
